theory Spec2Isabelle
  imports Main "HOL-Library.AList" "HOL-Library.Sublist"
begin

section \<open>Package-manager detection\<close>

text \<open>
  The developer guide shows the function:
  \<^verbatim>\<open>
  function detectPackageManager(options: CreateOptions): 'npm' | 'yarn' | 'pnpm' {
    if (options.useNpm) return 'npm'
    if (options.useYarn) return 'yarn'
    if (options.usePnpm) return 'pnpm'
    const userAgent = process.env.npm_config_user_agent
    if (userAgent?.includes('yarn')) return 'yarn'
    if (userAgent?.includes('pnpm')) return 'pnpm'
    return 'npm'
  }
  \<close>
  The return type is an enum of three names. The options are the flags that the command
  line parser sets. The environment variable is read once; it is an explicit argument
  here, absent (\<open>None\<close>) when the variable is not set.
\<close>

datatype package_manager = Npm | Yarn | Pnpm

record CreateOptions =
  useNpm :: bool
  useYarn :: bool
  usePnpm :: bool

text \<open>\<^verbatim>\<open>String.prototype.includes\<close>: the argument occurs somewhere in the string.\<close>

fun str_includes :: "string \<Rightarrow> string \<Rightarrow> bool" where
  "str_includes [] sub = (sub = [])"
| "str_includes (c # cs) sub = (prefix sub (c # cs) \<or> str_includes cs sub)"

text \<open>\<^verbatim>\<open>userAgent?.includes(s)\<close>: an absent user agent gives \<open>undefined\<close>, which is falsy.\<close>

definition opt_includes :: "string option \<Rightarrow> string \<Rightarrow> bool" where
  "opt_includes userAgent sub = (case userAgent of None \<Rightarrow> False | Some ua \<Rightarrow> str_includes ua sub)"

definition detectPackageManager :: "CreateOptions \<Rightarrow> string option \<Rightarrow> package_manager" where
  "detectPackageManager options userAgent =
     (if useNpm options then Npm
      else if useYarn options then Yarn
      else if usePnpm options then Pnpm
      else if opt_includes userAgent ''yarn'' then Yarn
      else if opt_includes userAgent ''pnpm'' then Pnpm
      else Npm)"

text \<open>
  The request of the specification carries one optional override: at most one of the
  three flags is set.
\<close>

definition override_options :: "package_manager option \<Rightarrow> CreateOptions" where
  "override_options ov =
     \<lparr>useNpm = (ov = Some Npm), useYarn = (ov = Some Yarn), usePnpm = (ov = Some Pnpm)\<rparr>"

text \<open>
  The guide's command definition declares the three selection flags as boolean options
  (\<^verbatim>\<open>.option('--use-npm', 'Use npm')\<close>, \<^verbatim>\<open>.option('--use-pnpm', 'Use pnpm')\<close>,
  \<^verbatim>\<open>.option('--use-yarn', 'Use yarn')\<close>). The options object starts with none of them set,
  and each selection flag that the command line parser recognises, in the order in which
  the flags were given, sets its own field. Which tokens of a command line the parser
  takes for flags (and which for the value of \<^verbatim>\<open>--template\<close> or for positional arguments) is
  the parser's business and is not modelled: \<open>flags_given\<close> starts from the flags that
  were recognised.
\<close>

datatype selection_flag = UseNpm | UseYarn | UsePnpm

definition set_flag :: "selection_flag \<Rightarrow> CreateOptions \<Rightarrow> CreateOptions" where
  "set_flag f options =
     (case f of
        UseNpm \<Rightarrow> options\<lparr>useNpm := True\<rparr>
      | UseYarn \<Rightarrow> options\<lparr>useYarn := True\<rparr>
      | UsePnpm \<Rightarrow> options\<lparr>usePnpm := True\<rparr>)"

definition flags_given :: "selection_flag list \<Rightarrow> CreateOptions" where
  "flags_given fs = fold set_flag fs \<lparr>useNpm = False, useYarn = False, usePnpm = False\<rparr>"

text \<open>
  The precedence of the specification, in its own words: the override, then the signal
  of the environment, then the default.
\<close>

definition resolve_spec :: "package_manager option \<Rightarrow> package_manager option \<Rightarrow> package_manager" where
  "resolve_spec ov signal =
     (case ov of Some m \<Rightarrow> m | None \<Rightarrow> (case signal of Some s \<Rightarrow> s | None \<Rightarrow> Npm))"

text \<open>The signal that the code reads off the user agent: yarn is looked for first.\<close>

definition env_signal :: "string option \<Rightarrow> package_manager option" where
  "env_signal userAgent =
     (if opt_includes userAgent ''yarn'' then Some Yarn
      else if opt_includes userAgent ''pnpm'' then Some Pnpm
      else None)"

section \<open>Name validation\<close>

text \<open>
  The developer guide shows the function:
  \<^verbatim>\<open>
  export function validateProjectName(name: string) {
    const validation = validateNpmName(name)
    if (validation.valid) {
      return { valid: true }
    }
    return {
      valid: false,
      problems: [
        ...(validation.errors || []),
        ...(validation.warnings || [])
      ]
    }
  }
  \<close>
  \<open>validateNpmName\<close> is the package \<^verbatim>\<open>validate-npm-package-name\<close>, a dependency:
  it is an argument of the model. The object that it returns has the properties
  \<open>validForNewPackages\<close> and \<open>validForOldPackages\<close>, and the lists \<open>errors\<close> and
  \<open>warnings\<close>, each of which is absent when it would be empty.
\<close>

record npm_validation =
  validForNewPackages :: bool
  validForOldPackages :: bool
  errors :: "string list option"
  warnings :: "string list option"

text \<open>
  \<^verbatim>\<open>validation.valid\<close>: the object of the library has no property of that name, so the
  read gives \<open>undefined\<close> (\<open>None\<close>) whatever the object holds; \<open>undefined\<close> is falsy.
\<close>

definition valid :: "npm_validation \<Rightarrow> bool option" where
  "valid validation = None"

definition truthy :: "bool option \<Rightarrow> bool" where
  "truthy v = (case v of None \<Rightarrow> False | Some b \<Rightarrow> b)"

text \<open>The two shapes of the result: \<^verbatim>\<open>{ valid: true }\<close> and
  \<^verbatim>\<open>{ valid: false, problems: [...] }\<close>.\<close>

datatype name_result = Valid | Invalid (problems: "string list")

text \<open>\<^verbatim>\<open>xs || []\<close>\<close>

definition or_empty :: "string list option \<Rightarrow> string list" where
  "or_empty xs = (case xs of None \<Rightarrow> [] | Some ys \<Rightarrow> ys)"

definition validateProjectName :: "(string \<Rightarrow> npm_validation) \<Rightarrow> string \<Rightarrow> name_result" where
  "validateProjectName validateNpmName name =
     (let validation = validateNpmName name in
      if truthy (valid validation) then Valid
      else Invalid (or_empty (errors validation) @ or_empty (warnings validation)))"

text \<open>
  Two answers of the name library about one problem, \<open>m\<close>: as a hard error, and as a
  warning.
\<close>

definition reports_error :: "string \<Rightarrow> string \<Rightarrow> npm_validation" where
  "reports_error m name =
     \<lparr>validForNewPackages = False, validForOldPackages = False,
      errors = Some [m], warnings = None\<rparr>"

definition reports_warning :: "string \<Rightarrow> string \<Rightarrow> npm_validation" where
  "reports_warning m name =
     \<lparr>validForNewPackages = False, validForOldPackages = True,
      errors = None, warnings = Some [m]\<rparr>"

text \<open>An answer of the name library that finds nothing wrong with the name.\<close>

definition reports_nothing :: "string \<Rightarrow> npm_validation" where
  "reports_nothing name =
     \<lparr>validForNewPackages = True, validForOldPackages = True,
      errors = None, warnings = None\<rparr>"

section \<open>Paths\<close>

text \<open>
  A path is absolute and normalised: the list of its segments from the root directory.
  \<open>path.resolve\<close> and \<open>path.join\<close> of Node (POSIX) split their arguments at the
  slashes, drop empty segments and \<^verbatim>\<open>.\<close>, and step back on \<^verbatim>\<open>..\<close> (never above the
  root).
\<close>

type_synonym path = "string list"

fun split_on :: "char \<Rightarrow> string \<Rightarrow> string list" where
  "split_on c [] = [[]]"
| "split_on c (x # xs) =
     (if x = c then [] # split_on c xs
      else (case split_on c xs of [] \<Rightarrow> [[x]] | y # ys \<Rightarrow> (x # y) # ys))"

definition step_segment :: "string \<Rightarrow> path \<Rightarrow> path" where
  "step_segment s p =
     (if s = [] \<or> s = ''.'' then p else if s = ''..'' then butlast p else p @ [s])"

text \<open>\<^verbatim>\<open>path.resolve(projectName)\<close>, against the working directory of the process.\<close>

definition path_resolve :: "path \<Rightarrow> string \<Rightarrow> path" where
  "path_resolve cwd name =
     fold step_segment (split_on CHR ''/'' name)
       (if name \<noteq> [] \<and> hd name = CHR ''/'' then [] else cwd)"

text \<open>\<^verbatim>\<open>path.join(dir, seg1, ..., segn)\<close> for an absolute \<open>dir\<close>.\<close>

definition path_join :: "path \<Rightarrow> string list \<Rightarrow> path" where
  "path_join dir segs = fold step_segment (concat (map (split_on CHR ''/'') segs)) dir"

text \<open>\<^verbatim>\<open>path.basename(root)\<close>: the last segment; the root directory has the empty one.\<close>

definition path_basename :: "path \<Rightarrow> string" where
  "path_basename p = (if p = [] then [] else last p)"

text \<open>The path as the template literals print it.\<close>

definition path_string :: "path \<Rightarrow> string" where
  "path_string p = (if p = [] then ''/'' else concat (map (\<lambda>s. CHR ''/'' # s) p))"

section \<open>The file system\<close>

text \<open>
  A file holds its text; a directory holds its entries by name. The file system is the
  node of the root directory. Each function below is one call of Node's \<open>fs\<close>; a call
  that throws returns no tree.
\<close>

datatype node = File string | Dir "(string \<times> node) list"

datatype error = ENOENT | ENOTDIR | EISDIR | ENOTEMPTY | SyntaxError | TypeError
  | MaterializationFailed

fun lookup :: "node \<Rightarrow> path \<Rightarrow> node option" where
  "lookup n [] = Some n"
| "lookup (File c) (s # p) = None"
| "lookup (Dir es) (s # p) = (case map_of es s of None \<Rightarrow> None | Some c \<Rightarrow> lookup c p)"

definition existsSync :: "node \<Rightarrow> path \<Rightarrow> bool" where
  "existsSync fs p = (lookup fs p \<noteq> None)"

text \<open>Placing a node at a path whose parent directory exists: a new entry, or a
  replacement of the entry of that name.\<close>

fun put :: "path \<Rightarrow> node \<Rightarrow> node \<Rightarrow> node option" where
  "put [] n t = Some n"
| "put (s # p) n (File c) = None"
| "put (s # p) n (Dir es) =
     (if p = [] then Some (Dir (AList.update s n es))
      else (case map_of es s of
              None \<Rightarrow> None
            | Some c \<Rightarrow> map_option (\<lambda>c'. Dir (AList.update s c' es)) (put p n c)))"

fun remove :: "path \<Rightarrow> node \<Rightarrow> node option" where
  "remove [] t = None"
| "remove (s # p) (File c) = None"
| "remove (s # p) (Dir es) =
     (case map_of es s of
        None \<Rightarrow> None
      | Some c \<Rightarrow>
          if p = [] then Some (Dir (AList.delete s es))
          else map_option (\<lambda>c'. Dir (AList.update s c' es)) (remove p c))"

text \<open>\<^verbatim>\<open>fs.mkdirSync(p, { recursive: true })\<close>: every missing directory on the way is
  created; a file on the way makes the call throw.\<close>

fun mkdirp :: "path \<Rightarrow> node \<Rightarrow> node option" where
  "mkdirp [] (Dir es) = Some (Dir es)"
| "mkdirp [] (File c) = None"
| "mkdirp (s # p) (File c) = None"
| "mkdirp (s # p) (Dir es) =
     map_option (\<lambda>c. Dir (AList.update s c es))
       (mkdirp p (case map_of es s of None \<Rightarrow> Dir [] | Some c \<Rightarrow> c))"

text \<open>\<^verbatim>\<open>fs.readFileSync(p, 'utf8')\<close>\<close>

definition readFileSync :: "node \<Rightarrow> path \<Rightarrow> error + string" where
  "readFileSync fs p =
     (case lookup fs p of
        None \<Rightarrow> Inl ENOENT
      | Some (Dir es) \<Rightarrow> Inl EISDIR
      | Some (File c) \<Rightarrow> Inr c)"

text \<open>\<^verbatim>\<open>fs.writeFileSync(p, data)\<close>\<close>

definition write_file :: "path \<Rightarrow> string \<Rightarrow> node \<Rightarrow> error + node" where
  "write_file p data fs =
     (case lookup fs p of
        Some (Dir es) \<Rightarrow> Inl EISDIR
      | _ \<Rightarrow> (case put p (File data) fs of None \<Rightarrow> Inl ENOENT | Some fs' \<Rightarrow> Inr fs'))"

text \<open>\<^verbatim>\<open>fs.renameSync(old, new)\<close>, as rename(2): the node moves with all below it and
  replaces what the new path holds, unless the two are of different kinds or the new
  path is a directory with entries.\<close>

definition rename_node :: "path \<Rightarrow> path \<Rightarrow> node \<Rightarrow> error + node" where
  "rename_node old new fs =
     (case lookup fs old of
        None \<Rightarrow> Inl ENOENT
      | Some n \<Rightarrow>
          (case (n, lookup fs new) of
             (File c, Some (Dir ds)) \<Rightarrow> Inl EISDIR
           | (Dir es, Some (File c)) \<Rightarrow> Inl ENOTDIR
           | (Dir es, Some (Dir (d # ds))) \<Rightarrow> Inl ENOTEMPTY
           | _ \<Rightarrow>
              (case remove old fs of
                 None \<Rightarrow> Inl ENOENT
               | Some fs1 \<Rightarrow> (case put new n fs1 of None \<Rightarrow> Inl ENOENT | Some fs2 \<Rightarrow> Inr fs2))))"

section \<open>JSON documents\<close>

text \<open>
  The values of JSON. An object is the list of its members, a number stands as the text
  that JavaScript prints for it, which determines it. \<open>JSON.parse\<close> does two things. It
  reads the text: the grammar, the escapes and the numbers; that part is a parameter of
  the model (\<open>JSON_read\<close> of \<open>env\<close> below), and it gives the document as it is written,
  each object with its members in the order of the text, a repeated key repeated. And it
  builds the JavaScript value, which is written out here (\<open>construct\<close>), as is
  \<open>JSON.stringify(v, null, 2)\<close>.
\<close>

datatype jsval = JNull | JBool bool | JNum string | JStr string
  | JArr "jsval list" | JObj "(string \<times> jsval) list"

text \<open>
  The own properties of the object that \<open>JSON.parse\<close> builds from the members as
  written. Each member defines its property in turn: a key that is new comes last, a key
  that is there keeps its place and takes the new value. JavaScript then enumerates the
  keys that are array indices (the canonical decimal numerals below \<open>2^32 - 1\<close>) first, in
  ascending numeric order, and after them the other keys in the order of their creation;
  \<open>JSON.stringify\<close> prints them so.
\<close>

definition is_digit :: "char \<Rightarrow> bool" where
  "is_digit c = (48 \<le> (of_char c :: nat) \<and> (of_char c :: nat) \<le> 57)"

definition index_value :: "string \<Rightarrow> nat" where
  "index_value k = fold (\<lambda>c n. 10 * n + (of_char c - 48)) k 0"

definition is_array_index :: "string \<Rightarrow> bool" where
  "is_array_index k =
     (k \<noteq> [] \<and> list_all is_digit k \<and> (k = ''0'' \<or> hd k \<noteq> CHR ''0'')
      \<and> index_value k < 4294967295)"

definition define_members :: "(string \<times> 'v) list \<Rightarrow> (string \<times> 'v) list" where
  "define_members ms = fold (\<lambda>(k, v) ps. AList.update k v ps) ms []"

definition own_properties :: "(string \<times> 'v) list \<Rightarrow> (string \<times> 'v) list" where
  "own_properties ms =
     (let ps = define_members ms in
      sort_key (\<lambda>p. index_value (fst p)) (filter (\<lambda>p. is_array_index (fst p)) ps)
        @ filter (\<lambda>p. \<not> is_array_index (fst p)) ps)"

primrec construct :: "jsval \<Rightarrow> jsval" where
  "construct JNull = JNull"
| "construct (JBool b) = JBool b"
| "construct (JNum n) = JNum n"
| "construct (JStr s) = JStr s"
| "construct (JArr xs) = JArr (map construct xs)"
| "construct (JObj ms) = JObj (own_properties (map (map_prod id construct) ms))"

text \<open>
  \<^verbatim>\<open>packageJson.name = appName\<close> in module code, which is strict: on an object the
  property is replaced where it stands, or added last; an array takes the property, but
  its serialisation prints the elements only; on \<open>null\<close> and on a primitive value the
  assignment throws a TypeError.
\<close>

definition set_property :: "jsval \<Rightarrow> string \<Rightarrow> jsval \<Rightarrow> jsval option" where
  "set_property doc k v =
     (case doc of
        JObj ps \<Rightarrow> Some (JObj (AList.update k v ps))
      | JArr xs \<Rightarrow> Some (JArr xs)
      | _ \<Rightarrow> None)"

definition newline :: string where
  "newline = [CHR 0x0A]"

definition hexdigit :: "nat \<Rightarrow> char" where
  "hexdigit n = ''0123456789abcdef'' ! n"

definition quote_char :: "char \<Rightarrow> string" where
  "quote_char c =
     (if c = CHR 0x22 then [CHR 0x5C, CHR 0x22]
      else if c = CHR 0x5C then [CHR 0x5C, CHR 0x5C]
      else if c = CHR 0x08 then [CHR 0x5C, CHR ''b'']
      else if c = CHR 0x0C then [CHR 0x5C, CHR ''f'']
      else if c = CHR 0x0A then [CHR 0x5C, CHR ''n'']
      else if c = CHR 0x0D then [CHR 0x5C, CHR ''r'']
      else if c = CHR 0x09 then [CHR 0x5C, CHR ''t'']
      else if (of_char c :: nat) < 32
        then [CHR 0x5C, CHR ''u'', CHR ''0'', CHR ''0'',
              hexdigit (of_char c div 16), hexdigit (of_char c mod 16)]
      else [c])"

definition quote :: "string \<Rightarrow> string" where
  "quote s = [CHR 0x22] @ concat (map quote_char s) @ [CHR 0x22]"

fun join :: "string \<Rightarrow> string list \<Rightarrow> string" where
  "join sep [] = []"
| "join sep [x] = x"
| "join sep (x # y # ys) = x @ sep @ join sep (y # ys)"

text \<open>The indentation of \<^verbatim>\<open>JSON.stringify(_, null, 2)\<close>: two spaces for each level.\<close>

definition indent :: "nat \<Rightarrow> string" where
  "indent d = replicate (2 * d) CHR '' ''"

definition bracket :: "nat \<Rightarrow> string \<Rightarrow> string \<Rightarrow> string list \<Rightarrow> string" where
  "bracket d l r items =
     (if items = [] then l @ r
      else l @ newline @ join ('','' @ newline) (map (\<lambda>i. indent (Suc d) @ i) items)
             @ newline @ indent d @ r)"

primrec ser :: "jsval \<Rightarrow> nat \<Rightarrow> string" where
  "ser JNull d = ''null''"
| "ser (JBool b) d = (if b then ''true'' else ''false'')"
| "ser (JNum n) d = n"
| "ser (JStr s) d = quote s"
| "ser (JArr xs) d = bracket d ''['' '']'' (map (\<lambda>f. f (Suc d)) (map ser xs))"
| "ser (JObj ps) d =
     bracket d ''{'' ''}''
       (map (\<lambda>(k, f). quote k @ '': '' @ f (Suc d)) (map (map_prod id ser) ps))"

definition JSON_stringify :: "jsval \<Rightarrow> string" where
  "JSON_stringify v = ser v 0"

section \<open>The run: world, environment and helpers\<close>

text \<open>
  A run of \<open>createProject\<close> acts on the file system and on the terminal, and it spawns
  commands. The world is the file system together with the trace of what the run has
  done so far, one event for each call with an effect.
\<close>

datatype event =
    Log string
  | Err string
  | Mkdir path
  | Copy path path
  | WriteFile path string
  | Rename path path
  | Spawn string path

record world =
  files :: node
  trace :: "event list"

text \<open>
  How a run ends: \<^verbatim>\<open>process.exit(n)\<close>, an exception that leaves \<open>createProject\<close>,
  or the normal end of the function.
\<close>

datatype outcome = Exited nat | Threw error | Returned

text \<open>
  What the run reads and cannot change: the working directory; the directory of the
  running module (\<^verbatim>\<open>__dirname\<close>); which paths the process may write; the allow-list of
  \<open>isFolderEmpty\<close>; the reading of a JSON text, which returns nothing where
  \<open>JSON.parse\<close> throws a SyntaxError; and what a spawned command does: given the command line, its working
  directory and the file system, whether it exits with zero and the file system it
  leaves.
\<close>

record env =
  cwd :: path
  dirname :: path
  writable :: "path \<Rightarrow> bool"
  validFiles :: "string list"
  JSON_read :: "string \<Rightarrow> jsval option"
  exec :: "string \<Rightarrow> path \<Rightarrow> node \<Rightarrow> bool \<times> node"

text \<open>\<^verbatim>\<open>JSON.parse(text)\<close>\<close>

definition JSON_parse :: "env \<Rightarrow> string \<Rightarrow> jsval option" where
  "JSON_parse e text = map_option construct (JSON_read e text)"

record CreateProjectOptions =
  projectName :: string
  template :: string
  packageManager :: string
  skipInstall :: bool

text \<open>A step of the run: it ends the run with an outcome, or control goes on.\<close>

type_synonym stage = "world \<Rightarrow> outcome option \<times> world"

definition console_log :: "string \<Rightarrow> world \<Rightarrow> world" where
  "console_log s w = w\<lparr>trace := trace w @ [Log s]\<rparr>"

definition console_error :: "string \<Rightarrow> world \<Rightarrow> world" where
  "console_error s w = w\<lparr>trace := trace w @ [Err s]\<rparr>"

definition mkdirSync :: "path \<Rightarrow> stage" where
  "mkdirSync p w =
     (case mkdirp p (files w) of
        None \<Rightarrow> (Some (Threw ENOTDIR), w)
      | Some fs' \<Rightarrow> (None, w\<lparr>files := fs', trace := trace w @ [Mkdir p]\<rparr>))"

definition writeFileSync :: "path \<Rightarrow> string \<Rightarrow> stage" where
  "writeFileSync p data w =
     (case write_file p data (files w) of
        Inl e \<Rightarrow> (Some (Threw e), w)
      | Inr fs' \<Rightarrow> (None, w\<lparr>files := fs', trace := trace w @ [WriteFile p data]\<rparr>))"

definition renameSync :: "path \<Rightarrow> path \<Rightarrow> stage" where
  "renameSync old new w =
     (case rename_node old new (files w) of
        Inl e \<Rightarrow> (Some (Threw e), w)
      | Inr fs' \<Rightarrow> (None, w\<lparr>files := fs', trace := trace w @ [Rename old new]\<rparr>))"

text \<open>\<^verbatim>\<open>execSync(cmd, { cwd, stdio: 'inherit' })\<close>: the command runs to its end; the
  result says whether it returned (exit status zero) or threw.\<close>

definition execSync :: "env \<Rightarrow> string \<Rightarrow> path \<Rightarrow> world \<Rightarrow> bool \<times> world" where
  "execSync e cmd dir w =
     (let (ok, fs') = exec e cmd dir (files w)
      in (ok, w\<lparr>files := fs', trace := trace w @ [Spawn cmd dir]\<rparr>))"

subsection \<open>The helpers of \<^verbatim>\<open>utils.ts\<close>\<close>

text \<open>
  \<open>createProject\<close> imports five helpers from \<^verbatim>\<open>./utils.js\<close>, which is not among the
  sources. They are modelled from the specification.
\<close>

text \<open>Modelled from the spec: \<open>isWriteable\<close> of \<^verbatim>\<open>utils.ts\<close>. The process must have write
  permission to the path (4.3 a).\<close>

definition isWriteable :: "env \<Rightarrow> path \<Rightarrow> bool" where
  "isWriteable e p = writable e p"

text \<open>Modelled from the spec: \<open>isFolderEmpty\<close> of \<^verbatim>\<open>utils.ts\<close>. The entries of the
  directory must be none, or limited to a fixed allow-list of benign artifacts (4.3 b).
  The names on the list are not in the sources: the list is a parameter. Listing a path
  that is no directory throws.\<close>

definition isFolderEmpty :: "env \<Rightarrow> node \<Rightarrow> path \<Rightarrow> bool option" where
  "isFolderEmpty e fs p =
     (case lookup fs p of
        Some (Dir es) \<Rightarrow> Some (list_all (\<lambda>name. name \<in> set (validFiles e)) (map fst es))
      | _ \<Rightarrow> None)"

text \<open>Modelled from the spec: \<open>copyRecursive\<close> of \<^verbatim>\<open>utils.ts\<close>. A full recursive copy of
  the template root into the destination, which keeps the directory structure, the file
  contents and the relative paths (4.5); what the destination holds besides stays. A
  file cannot be copied onto a directory, nor a directory onto a file: the copy fails
  (\<open>MaterializationFailed\<close>). The tree that a failed copy leaves half-way is not
  modelled.\<close>

definition graft_entries ::
  "(string \<times> (node option \<Rightarrow> node option)) list \<Rightarrow> (string \<times> node) list
     \<Rightarrow> (string \<times> node) list option" where
  "graft_entries gs ds =
     fold (\<lambda>(k, g) acc.
             case acc of
               None \<Rightarrow> None
             | Some a \<Rightarrow> map_option (\<lambda>n. AList.update k n a) (g (map_of a k)))
       gs (Some ds)"

primrec graft :: "node \<Rightarrow> node option \<Rightarrow> node option" where
  "graft (File c) d = (case d of Some (Dir ds) \<Rightarrow> None | _ \<Rightarrow> Some (File c))"
| "graft (Dir es) d =
     (case d of
        Some (File c) \<Rightarrow> None
      | _ \<Rightarrow> map_option Dir
               (graft_entries (map (map_prod id graft) es)
                  (case d of Some (Dir ds) \<Rightarrow> ds | _ \<Rightarrow> [])))"

definition copy_tree :: "path \<Rightarrow> path \<Rightarrow> node \<Rightarrow> node option" where
  "copy_tree src dest fs =
     (case lookup fs src of
        None \<Rightarrow> None
      | Some t \<Rightarrow> (case graft t (lookup fs dest) of None \<Rightarrow> None | Some t' \<Rightarrow> put dest t' fs))"

definition copyRecursive :: "path \<Rightarrow> path \<Rightarrow> stage" where
  "copyRecursive src dest w =
     (case copy_tree src dest (files w) of
        None \<Rightarrow> (Some (Threw MaterializationFailed), w)
      | Some fs' \<Rightarrow> (None, w\<lparr>files := fs', trace := trace w @ [Copy src dest]\<rparr>))"

text \<open>Modelled from the spec: \<open>getPackageManagerCommand\<close> of \<^verbatim>\<open>utils.ts\<close>. The command
  set of a package manager: its install command and the command that runs a script
  (section 3, PackageManagerCommand; scenario D: \<^verbatim>\<open>pnpm run dev\<close>). The install commands
  are those of the developer guide:
  \<^verbatim>\<open>pm === 'yarn' ? 'yarn install' : pm === 'pnpm' ? 'pnpm install' : 'npm install'\<close>.\<close>

record pm_command =
  install :: string
  run :: "string \<Rightarrow> string"

definition pm_name :: "string \<Rightarrow> string" where
  "pm_name pm = (if pm = ''yarn'' then ''yarn'' else if pm = ''pnpm'' then ''pnpm'' else ''npm'')"

definition getPackageManagerCommand :: "string \<Rightarrow> pm_command" where
  "getPackageManagerCommand pm =
     \<lparr>install = pm_name pm @ '' install'', run = (\<lambda>script. pm_name pm @ '' run '' @ script)\<rparr>"

text \<open>Modelled from the spec: \<open>tryGitInit\<close> of \<^verbatim>\<open>utils.ts\<close>. Best effort: it attempts to
  initialise a repository and to create an initial commit inside the destination, each
  through the command executor; a failure of either is swallowed, and the result only
  says whether both went through (4.9, section 9). The spec names the two steps, not
  their command lines.\<close>

definition git_init :: string where
  "git_init = ''git init''"

definition git_commit :: string where
  "git_commit = ''git commit''"

definition tryGitInit :: "env \<Rightarrow> path \<Rightarrow> world \<Rightarrow> bool \<times> world" where
  "tryGitInit e root w =
     (let (ok, w1) = execSync e git_init root w
      in if \<not> ok then (False, w1) else execSync e git_commit root w1)"

section \<open>\<open>createProject\<close>\<close>

text \<open>
  The function is a straight line of steps, each under its own comment in the source;
  \<^verbatim>\<open>process.exit(1)\<close> and an exception end the run where they occur. The colours of
  \<open>picocolors\<close> are left out: a coloured string is the string.
\<close>

fun run_stages :: "stage list \<Rightarrow> stage" where
  "run_stages [] w = (None, w)"
| "run_stages (s # ss) w =
     (case s w of (None, w') \<Rightarrow> run_stages ss w' | (Some oc, w') \<Rightarrow> (Some oc, w'))"

definition finish :: "outcome option \<times> world \<Rightarrow> outcome \<times> world" where
  "finish r = (case r of (None, w) \<Rightarrow> (Returned, w) | (Some oc, w) \<Rightarrow> (oc, w))"

text \<open>
  \<^verbatim>\<open>
  if (fs.existsSync(root)) {
    if (!isWriteable(root)) { console.error(...); process.exit(1) }
    if (!isFolderEmpty(root)) { console.error(...); process.exit(1) }
  } else {
    fs.mkdirSync(root, { recursive: true })
  }
  \<close>
\<close>

definition checkDirectory :: "env \<Rightarrow> string \<Rightarrow> path \<Rightarrow> stage" where
  "checkDirectory e name root w =
     (if existsSync (files w) root then
        (if \<not> isWriteable e root then
           (Some (Exited 1),
            console_error (''The directory '' @ name @ '' is not writable.'') w)
         else
           (case isFolderEmpty e (files w) root of
              None \<Rightarrow> (Some (Threw ENOTDIR), w)
            | Some isEmpty \<Rightarrow>
                if \<not> isEmpty then
                  (Some (Exited 1),
                   console_error
                     (''The directory '' @ name
                        @ '' contains files that could conflict. Please use a new directory.'') w)
                else (None, w)))
      else mkdirSync root w)"

text \<open>\<^verbatim>\<open>path.join(__dirname, '..', 'templates', template)\<close>\<close>

definition templateDir :: "env \<Rightarrow> string \<Rightarrow> path" where
  "templateDir e t = path_join (dirname e) [''..'', ''templates'', t]"

text \<open>
  \<^verbatim>\<open>
  console.log(`Creating a new Specra documentation site in ${pc.cyan(root)}`)
  console.log()
  ...
  if (!fs.existsSync(templateDir)) {
    console.error(pc.red(`Template ${pc.cyan(template)} not found.`))
    process.exit(1)
  }
  console.log(`Using template: ${pc.cyan(template)}`)
  console.log()
  \<close>
\<close>

definition resolveTemplate :: "path \<Rightarrow> string \<Rightarrow> path \<Rightarrow> stage" where
  "resolveTemplate root t tdir w =
     (let w1 = console_log []
                 (console_log (''Creating a new Specra documentation site in '' @ path_string root) w)
      in if \<not> existsSync (files w1) tdir then
           (Some (Exited 1), console_error (''Template '' @ t @ '' not found.'') w1)
         else (None, console_log [] (console_log (''Using template: '' @ t) w1)))"

text \<open>
  \<^verbatim>\<open>
  const packageJsonPath = path.join(root, 'package.json')
  const packageJson = JSON.parse(fs.readFileSync(packageJsonPath, 'utf8'))
  packageJson.name = appName
  fs.writeFileSync(packageJsonPath, JSON.stringify(packageJson, null, 2) + '\n')
  \<close>
\<close>

definition updatePackageJson :: "env \<Rightarrow> path \<Rightarrow> string \<Rightarrow> stage" where
  "updatePackageJson e root appName w =
     (let packageJsonPath = root @ [''package.json''] in
      case readFileSync (files w) packageJsonPath of
        Inl err \<Rightarrow> (Some (Threw err), w)
      | Inr text \<Rightarrow>
          (case JSON_parse e text of
             None \<Rightarrow> (Some (Threw SyntaxError), w)
           | Some packageJson \<Rightarrow>
               (case set_property packageJson ''name'' (JStr appName) of
                  None \<Rightarrow> (Some (Threw TypeError), w)
                | Some packageJson' \<Rightarrow>
                    writeFileSync packageJsonPath (JSON_stringify packageJson' @ newline) w)))"

text \<open>
  \<^verbatim>\<open>
  const gitignorePath = path.join(root, 'gitignore')
  if (fs.existsSync(gitignorePath)) {
    fs.renameSync(gitignorePath, path.join(root, '.gitignore'))
  }
  \<close>
\<close>

definition renameGitignore :: "path \<Rightarrow> stage" where
  "renameGitignore root w =
     (let gitignorePath = root @ [''gitignore''] in
      if existsSync (files w) gitignorePath
      then renameSync gitignorePath (root @ [''.gitignore'']) w
      else (None, w))"

text \<open>
  \<^verbatim>\<open>
  if (!skipInstall) {
    console.log('Installing dependencies...')
    console.log()
    const command = getPackageManagerCommand(packageManager)
    try {
      execSync(command.install, { cwd: root, stdio: 'inherit' })
    } catch (error) {
      console.error(pc.red('Failed to install dependencies.'))
      process.exit(1)
    }
    console.log()
  }
  \<close>
\<close>

definition installDependencies :: "env \<Rightarrow> path \<Rightarrow> string \<Rightarrow> bool \<Rightarrow> stage" where
  "installDependencies e root pm skip w =
     (if \<not> skip then
        (let w1 = console_log [] (console_log ''Installing dependencies...'' w);
             command = getPackageManagerCommand pm;
             (ok, w2) = execSync e (install command) root w1
         in if \<not> ok then (Some (Exited 1), console_error ''Failed to install dependencies.'' w2)
            else (None, console_log [] w2))
      else (None, w))"

text \<open>
  \<^verbatim>\<open>
  if (tryGitInit(root)) {
    console.log('Initialized a git repository.')
    console.log()
  }
  \<close>
\<close>

definition initializeGit :: "env \<Rightarrow> path \<Rightarrow> stage" where
  "initializeGit e root w =
     (let (ok, w1) = tryGitInit e root w
      in if ok then (None, console_log [] (console_log ''Initialized a git repository.'' w1))
         else (None, w1))"

text \<open>The success message: the calls of \<^verbatim>\<open>console.log\<close> from the line
  \<^verbatim>\<open>Success!\<close> to the end of the function; \<^verbatim>\<open>console.log()\<close> prints an empty line.\<close>

definition success_lines :: "string \<Rightarrow> string \<Rightarrow> path \<Rightarrow> string \<Rightarrow> string list" where
  "success_lines name appName root pm =
     (let command = getPackageManagerCommand pm in
      [''Success! Created '' @ appName @ '' at '' @ path_string root,
       [],
       ''Inside that directory, you can run several commands:'',
       [],
       ''  '' @ run command ''dev'',
       ''    Starts the development server.'',
       [],
       ''  '' @ run command ''build'',
       ''    Builds the app for production.'',
       [],
       ''  '' @ run command ''start'',
       ''    Runs the built app in production mode.'',
       [],
       ''We suggest that you begin by typing:'',
       [],
       ''  cd '' @ name,
       ''  '' @ run command ''dev'',
       []])"

definition successMessage :: "string \<Rightarrow> string \<Rightarrow> path \<Rightarrow> string \<Rightarrow> stage" where
  "successMessage name appName root pm w =
     (None, w\<lparr>trace := trace w @ map Log (success_lines name appName root pm)\<rparr>)"

text \<open>
  \<^verbatim>\<open>
  const root = path.resolve(projectName)
  const appName = path.basename(root)
  \<close>
\<close>

definition project_root :: "env \<Rightarrow> CreateProjectOptions \<Rightarrow> path" where
  "project_root e opts = path_resolve (cwd e) (projectName opts)"

text \<open>The eight steps of the function, in the order of the source.\<close>

definition stages :: "env \<Rightarrow> CreateProjectOptions \<Rightarrow> stage list" where
  "stages e opts =
     (let root = project_root e opts;
          appName = path_basename root;
          tdir = templateDir e (template opts)
      in [checkDirectory e (projectName opts) root,
          resolveTemplate root (template opts) tdir,
          copyRecursive tdir root,
          updatePackageJson e root appName,
          renameGitignore root,
          installDependencies e root (packageManager opts) (skipInstall opts),
          initializeGit e root,
          successMessage (projectName opts) appName root (packageManager opts)])"

definition createProject :: "env \<Rightarrow> CreateProjectOptions \<Rightarrow> world \<Rightarrow> outcome \<times> world" where
  "createProject e opts w = finish (run_stages (stages e opts) w)"

text \<open>
  The run up to a point: \<open>reaches n e opts w\<close> is the world with which a run from \<open>w\<close>
  comes to step \<open>n + 1\<close>, when the first \<open>n\<close> steps let it come that far.
\<close>

definition reaches :: "nat \<Rightarrow> env \<Rightarrow> CreateProjectOptions \<Rightarrow> world \<Rightarrow> world option" where
  "reaches n e opts w =
     (case run_stages (take n (stages e opts)) w of
        (None, w') \<Rightarrow> Some w'
      | (Some oc, w') \<Rightarrow> None)"

text \<open>The manifest after the copy, as it is written in the file and as the run reads it,
  and its text after the fourth step has written it.\<close>

definition manifest_path :: "env \<Rightarrow> CreateProjectOptions \<Rightarrow> path" where
  "manifest_path e opts = project_root e opts @ [''package.json'']"

definition file_text :: "node \<Rightarrow> path \<Rightarrow> string option" where
  "file_text fs p = (case readFileSync fs p of Inl err \<Rightarrow> None | Inr text \<Rightarrow> Some text)"

definition manifest_source :: "env \<Rightarrow> CreateProjectOptions \<Rightarrow> world \<Rightarrow> jsval option" where
  "manifest_source e opts w =
     (case reaches 3 e opts w of
        None \<Rightarrow> None
      | Some wc \<Rightarrow>
          (case file_text (files wc) (manifest_path e opts) of
             None \<Rightarrow> None
           | Some text \<Rightarrow> JSON_read e text))"

definition manifest_read :: "env \<Rightarrow> CreateProjectOptions \<Rightarrow> world \<Rightarrow> jsval option" where
  "manifest_read e opts w =
     (case reaches 3 e opts w of
        None \<Rightarrow> None
      | Some wc \<Rightarrow>
          (case file_text (files wc) (manifest_path e opts) of
             None \<Rightarrow> None
           | Some text \<Rightarrow> JSON_parse e text))"

definition manifest_written :: "env \<Rightarrow> CreateProjectOptions \<Rightarrow> world \<Rightarrow> string option" where
  "manifest_written e opts w =
     (case reaches 4 e opts w of
        None \<Rightarrow> None
      | Some wp \<Rightarrow> file_text (files wp) (manifest_path e opts))"

text \<open>The events that a run has added to the trace of the world it started from.\<close>

definition new_events :: "world \<Rightarrow> world \<Rightarrow> event list" where
  "new_events w w' = drop (length (trace w)) (trace w')"

fun is_spawn :: "event \<Rightarrow> bool" where
  "is_spawn (Spawn cmd dir) = True"
| "is_spawn ev = False"

fun is_error_line :: "event \<Rightarrow> bool" where
  "is_error_line (Err msg) = True"
| "is_error_line ev = False"

text \<open>The events of the steps behind the template check: a copy, a written file, a
  renamed file, a spawned command.\<close>

fun builds :: "event \<Rightarrow> bool" where
  "builds (Copy src dest) = True"
| "builds (WriteFile p text) = True"
| "builds (Rename old new) = True"
| "builds (Spawn cmd dir) = True"
| "builds ev = False"

text \<open>A step emits \<open>P\<close> when every event that it adds to the trace satisfies \<open>P\<close>, and it
  only adds to the trace.\<close>

definition emits :: "(event \<Rightarrow> bool) \<Rightarrow> stage \<Rightarrow> bool" where
  "emits P s = (\<forall>w. \<exists>evs. trace (snd (s w)) = trace w @ evs \<and> list_all P evs)"

text \<open>An event that is no spawned command, or is one of the two commands of the VCS
  initialiser, run in the project directory.\<close>

definition vcs_spawn :: "path \<Rightarrow> event \<Rightarrow> bool" where
  "vcs_spawn root ev = (is_spawn ev \<longrightarrow> ev = Spawn git_init root \<or> ev = Spawn git_commit root)"

section \<open>An example installation\<close>

text \<open>
  A small file system for the concrete runs below: the package with its bundled
  \<open>minimal\<close> template under \<^verbatim>\<open>/pkg\<close>, and a working directory \<^verbatim>\<open>/home\<close> that holds one
  directory with a file of the user's.
\<close>

definition template_manifest :: jsval where
  "template_manifest =
     JObj [(''name'', JStr ''specra-template-minimal''),
           (''version'', JStr ''0.1.0''),
           (''private'', JBool True),
           (''scripts'', JObj [(''dev'', JStr ''next dev'')])]"

definition minimal_template :: node where
  "minimal_template =
     Dir [(''package.json'', File (JSON_stringify template_manifest)),
          (''gitignore'', File ''node_modules''),
          (''docs'', Dir [(''index.mdx'', File ''# Welcome'')])]"

definition example_files :: node where
  "example_files =
     Dir [(''pkg'', Dir [(''dist'', Dir [(''index.js'', File [])]),
                        (''templates'', Dir [(''minimal'', minimal_template)])]),
          (''home'', Dir [(''existing-dir'', Dir [(''notes.txt'', File ''keep'')])])]"

text \<open>
  Further installations for the concrete runs about the manifest and the ignore file: a
  package with one bundled template \<open>t\<close>, and the working directory \<^verbatim>\<open>/home\<close> with the
  given entries.
\<close>

definition installation :: "string \<Rightarrow> node \<Rightarrow> (string \<times> node) list \<Rightarrow> node" where
  "installation t tn entries =
     Dir [(''pkg'', Dir [(''dist'', Dir []), (''templates'', Dir [(t, tn)])]),
          (''home'', Dir entries)]"

text \<open>A manifest with a value of every kind, as it is written: \<open>name\<close> is its second
  member, one string holds a quote, a backslash, a newline, a tabulator and a control
  character. Its text in the template is in one line; the text that the run is to write
  for the project \<^verbatim>\<open>my-docs\<close> is \<open>rich_written\<close>, line by line.\<close>

definition rich_manifest :: jsval where
  "rich_manifest =
     JObj [(''version'', JStr ''0.1.0''),
           (''name'', JStr ''specra-template-rich''),
           (''private'', JBool True),
           (''description'', JStr (''Say '' @ [CHR 0x22] @ ''hi'' @ [CHR 0x22] @ '' '' @ [CHR 0x5C] @ '' '' @ [CHR 0x0A] @ [CHR 0x09] @ [CHR 0x01] @ '' done'')),
           (''scripts'', JObj [(''dev'', JStr ''next dev''), (''build'', JStr ''next build'')]),
           (''files'', JArr [JStr ''docs'', JNum ''1'', JObj [(''deep'', JArr [JNull])]]),
           (''engines'', JObj []),
           (''keywords'', JArr []),
           (''license'', JNull)]"

definition rich_source :: string where
  "rich_source =
     ''{'' @ [CHR 0x22] @ ''version'' @ [CHR 0x22] @ '':'' @ [CHR 0x22] @ ''0.1.0''
       @ [CHR 0x22] @ '','' @ [CHR 0x22] @ ''name'' @ [CHR 0x22] @ '':'' @ [CHR 0x22]
       @ ''specra-template-rich'' @ [CHR 0x22] @ '','' @ [CHR 0x22] @ ''private''
       @ [CHR 0x22] @ '':true,'' @ [CHR 0x22] @ ''description'' @ [CHR 0x22] @ '':''
       @ [CHR 0x22] @ ''Say '' @ [CHR 0x5C] @ [CHR 0x22] @ ''hi'' @ [CHR 0x5C] @ [CHR 0x22]
       @ '' '' @ [CHR 0x5C] @ [CHR 0x5C] @ '' '' @ [CHR 0x5C] @ ''n'' @ [CHR 0x5C] @ ''t''
       @ [CHR 0x5C] @ ''u0001 done'' @ [CHR 0x22] @ '','' @ [CHR 0x22] @ ''scripts''
       @ [CHR 0x22] @ '':{'' @ [CHR 0x22] @ ''dev'' @ [CHR 0x22] @ '':'' @ [CHR 0x22]
       @ ''next dev'' @ [CHR 0x22] @ '','' @ [CHR 0x22] @ ''build'' @ [CHR 0x22] @ '':''
       @ [CHR 0x22] @ ''next build'' @ [CHR 0x22] @ ''},'' @ [CHR 0x22] @ ''files''
       @ [CHR 0x22] @ '':['' @ [CHR 0x22] @ ''docs'' @ [CHR 0x22] @ '',1,{'' @ [CHR 0x22]
       @ ''deep'' @ [CHR 0x22] @ '':[null]}],'' @ [CHR 0x22] @ ''engines'' @ [CHR 0x22]
       @ '':{},'' @ [CHR 0x22] @ ''keywords'' @ [CHR 0x22] @ '':[],'' @ [CHR 0x22]
       @ ''license'' @ [CHR 0x22] @ '':null}''"

definition rich_written :: string where
  "rich_written =
     ''{'' @ [CHR 0x0A]
       @ ''  '' @ [CHR 0x22] @ ''version'' @ [CHR 0x22] @ '': '' @ [CHR 0x22] @ ''0.1.0'' @ [CHR 0x22] @ '','' @ [CHR 0x0A]
       @ ''  '' @ [CHR 0x22] @ ''name'' @ [CHR 0x22] @ '': '' @ [CHR 0x22] @ ''my-docs'' @ [CHR 0x22] @ '','' @ [CHR 0x0A]
       @ ''  '' @ [CHR 0x22] @ ''private'' @ [CHR 0x22] @ '': true,'' @ [CHR 0x0A]
       @ ''  '' @ [CHR 0x22] @ ''description'' @ [CHR 0x22] @ '': '' @ [CHR 0x22] @ ''Say '' @ [CHR 0x5C] @ [CHR 0x22] @ ''hi'' @ [CHR 0x5C] @ [CHR 0x22] @ '' '' @ [CHR 0x5C] @ [CHR 0x5C] @ '' '' @ [CHR 0x5C] @ ''n'' @ [CHR 0x5C] @ ''t'' @ [CHR 0x5C] @ ''u0001 done'' @ [CHR 0x22] @ '','' @ [CHR 0x0A]
       @ ''  '' @ [CHR 0x22] @ ''scripts'' @ [CHR 0x22] @ '': {'' @ [CHR 0x0A]
       @ ''    '' @ [CHR 0x22] @ ''dev'' @ [CHR 0x22] @ '': '' @ [CHR 0x22] @ ''next dev'' @ [CHR 0x22] @ '','' @ [CHR 0x0A]
       @ ''    '' @ [CHR 0x22] @ ''build'' @ [CHR 0x22] @ '': '' @ [CHR 0x22] @ ''next build'' @ [CHR 0x22] @ [CHR 0x0A]
       @ ''  },'' @ [CHR 0x0A]
       @ ''  '' @ [CHR 0x22] @ ''files'' @ [CHR 0x22] @ '': ['' @ [CHR 0x0A]
       @ ''    '' @ [CHR 0x22] @ ''docs'' @ [CHR 0x22] @ '','' @ [CHR 0x0A]
       @ ''    1,'' @ [CHR 0x0A]
       @ ''    {'' @ [CHR 0x0A]
       @ ''      '' @ [CHR 0x22] @ ''deep'' @ [CHR 0x22] @ '': ['' @ [CHR 0x0A]
       @ ''        null'' @ [CHR 0x0A]
       @ ''      ]'' @ [CHR 0x0A]
       @ ''    }'' @ [CHR 0x0A]
       @ ''  ],'' @ [CHR 0x0A]
       @ ''  '' @ [CHR 0x22] @ ''engines'' @ [CHR 0x22] @ '': {},'' @ [CHR 0x0A]
       @ ''  '' @ [CHR 0x22] @ ''keywords'' @ [CHR 0x22] @ '': [],'' @ [CHR 0x0A]
       @ ''  '' @ [CHR 0x22] @ ''license'' @ [CHR 0x22] @ '': null'' @ [CHR 0x0A]
       @ ''}'' @ [CHR 0x0A]"

definition rich_template :: node where
  "rich_template =
     Dir [(''package.json'', File rich_source),
          (''docs'', Dir [(''index.mdx'', File ''# Welcome'')])]"

text \<open>A manifest that is an array, and a manifest with two keys that are array indices
  and a repeated key, as it is written, with the text that the run writes for it.\<close>

definition list_template :: node where
  "list_template = Dir [(''package.json'', File ''[]'')]"

definition numbered_manifest :: jsval where
  "numbered_manifest =
     JObj [(''version'', JStr ''0.1.0''),
           (''10'', JStr ''ten''),
           (''name'', JStr ''t''),
           (''2'', JStr ''two''),
           (''version'', JStr ''0.2.0'')]"

definition numbered_source :: string where
  "numbered_source =
     ''{'' @ [CHR 0x22] @ ''version'' @ [CHR 0x22] @ '':'' @ [CHR 0x22] @ ''0.1.0''
       @ [CHR 0x22] @ '','' @ [CHR 0x22] @ ''10'' @ [CHR 0x22] @ '':'' @ [CHR 0x22] @ ''ten''
       @ [CHR 0x22] @ '','' @ [CHR 0x22] @ ''name'' @ [CHR 0x22] @ '':'' @ [CHR 0x22] @ ''t''
       @ [CHR 0x22] @ '','' @ [CHR 0x22] @ ''2'' @ [CHR 0x22] @ '':'' @ [CHR 0x22] @ ''two''
       @ [CHR 0x22] @ '','' @ [CHR 0x22] @ ''version'' @ [CHR 0x22] @ '':'' @ [CHR 0x22]
       @ ''0.2.0'' @ [CHR 0x22] @ ''}''"

definition numbered_written :: string where
  "numbered_written =
     ''{'' @ [CHR 0x0A]
       @ ''  '' @ [CHR 0x22] @ ''2'' @ [CHR 0x22] @ '': '' @ [CHR 0x22] @ ''two'' @ [CHR 0x22] @ '','' @ [CHR 0x0A]
       @ ''  '' @ [CHR 0x22] @ ''10'' @ [CHR 0x22] @ '': '' @ [CHR 0x22] @ ''ten'' @ [CHR 0x22] @ '','' @ [CHR 0x0A]
       @ ''  '' @ [CHR 0x22] @ ''version'' @ [CHR 0x22] @ '': '' @ [CHR 0x22] @ ''0.2.0'' @ [CHR 0x22] @ '','' @ [CHR 0x0A]
       @ ''  '' @ [CHR 0x22] @ ''name'' @ [CHR 0x22] @ '': '' @ [CHR 0x22] @ ''my-docs'' @ [CHR 0x22] @ [CHR 0x0A]
       @ ''}'' @ [CHR 0x0A]"

definition numbered_template :: node where
  "numbered_template = Dir [(''package.json'', File numbered_source)]"

text \<open>A template that ships the file \<^verbatim>\<open>gitignore\<close> and also a directory \<^verbatim>\<open>.gitignore\<close>.\<close>

definition clash_template :: node where
  "clash_template =
     Dir [(''package.json'', File (JSON_stringify template_manifest)),
          (''gitignore'', File ''node_modules''),
          (''.gitignore'', Dir [])]"

definition example_read :: "string \<Rightarrow> jsval option" where
  "example_read text =
     (if text = JSON_stringify template_manifest then Some template_manifest
      else if text = rich_source then Some rich_manifest
      else if text = numbered_source then Some numbered_manifest
      else if text = ''[]'' then Some (JArr [])
      else None)"

text \<open>Two command executors: with one every command exits with zero, with the other
  every command fails; neither touches the files.\<close>

definition commands_succeed :: "string \<Rightarrow> path \<Rightarrow> node \<Rightarrow> bool \<times> node" where
  "commands_succeed cmd dir fs = (True, fs)"

definition commands_fail :: "string \<Rightarrow> path \<Rightarrow> node \<Rightarrow> bool \<times> node" where
  "commands_fail cmd dir fs = (False, fs)"

definition all_writable :: "path \<Rightarrow> bool" where
  "all_writable p = True"

definition example_env :: "(string \<Rightarrow> path \<Rightarrow> node \<Rightarrow> bool \<times> node) \<Rightarrow> env" where
  "example_env ex =
     \<lparr>cwd = [''home''], dirname = [''pkg'', ''dist''], writable = all_writable,
      validFiles = [''.git'', ''.DS_Store'', ''LICENSE''],
      JSON_read = example_read, exec = ex\<rparr>"

definition example_world :: world where
  "example_world = \<lparr>files = example_files, trace = []\<rparr>"

definition request :: "string \<Rightarrow> string \<Rightarrow> bool \<Rightarrow> CreateProjectOptions" where
  "request name t skip =
     \<lparr>projectName = name, template = t, packageManager = ''pnpm'', skipInstall = skip\<rparr>"

text \<open>The run of scenario A, \<^verbatim>\<open>my-docs\<close> from the \<open>minimal\<close> template: the world with
  which it comes to the install step.\<close>

definition patched_manifest :: jsval where
  "patched_manifest =
     JObj [(''name'', JStr ''my-docs''),
           (''version'', JStr ''0.1.0''),
           (''private'', JBool True),
           (''scripts'', JObj [(''dev'', JStr ''next dev'')])]"

definition my_docs :: path where
  "my_docs = [''home'', ''my-docs'']"

definition scaffolded :: world where
  "scaffolded =
     \<lparr>files =
        Dir [(''pkg'', Dir [(''dist'', Dir [(''index.js'', File [])]),
                           (''templates'', Dir [(''minimal'', minimal_template)])]),
             (''home'',
              Dir [(''existing-dir'', Dir [(''notes.txt'', File ''keep'')]),
                   (''my-docs'',
                    Dir [(''package.json'', File (JSON_stringify patched_manifest @ newline)),
                         (''docs'', Dir [(''index.mdx'', File ''# Welcome'')]),
                         (''.gitignore'', File ''node_modules'')])])],
      trace =
        [Mkdir my_docs,
         Log ''Creating a new Specra documentation site in /home/my-docs'',
         Log [],
         Log ''Using template: minimal'',
         Log [],
         Copy [''pkg'', ''templates'', ''minimal''] my_docs,
         WriteFile (my_docs @ [''package.json'']) (JSON_stringify patched_manifest @ newline),
         Rename (my_docs @ [''gitignore'']) (my_docs @ [''.gitignore''])]\<rparr>"

text \<open>A second installation, whose only template \<open>bare\<close> ships no ignore file: the
  world before the run, and the world with which the run comes to the ignore-file step.\<close>

definition bare_world :: world where
  "bare_world =
     \<lparr>files =
        Dir [(''pkg'', Dir [(''dist'', Dir []),
                           (''templates'',
                            Dir [(''bare'',
                                  Dir [(''package.json'', File (JSON_stringify template_manifest))])])]),
             (''home'', Dir [])],
      trace = []\<rparr>"

definition bare_patched :: world where
  "bare_patched =
     \<lparr>files =
        Dir [(''pkg'', Dir [(''dist'', Dir []),
                           (''templates'',
                            Dir [(''bare'',
                                  Dir [(''package.json'', File (JSON_stringify template_manifest))])])]),
             (''home'',
              Dir [(''my-docs'',
                    Dir [(''package.json'', File (JSON_stringify patched_manifest @ newline))])])],
      trace =
        [Mkdir my_docs,
         Log ''Creating a new Specra documentation site in /home/my-docs'',
         Log [],
         Log ''Using template: bare'',
         Log [],
         Copy [''pkg'', ''templates'', ''bare''] my_docs,
         WriteFile (my_docs @ [''package.json'']) (JSON_stringify patched_manifest @ newline)]\<rparr>"

text \<open>The world with which the run from the template \<open>clash\<close> comes to the ignore-file
  step.\<close>

definition clash_patched :: world where
  "clash_patched =
     \<lparr>files =
        installation ''clash'' clash_template
          [(''my-docs'',
            Dir [(''package.json'', File (JSON_stringify patched_manifest @ newline)),
                 (''gitignore'', File ''node_modules''),
                 (''.gitignore'', Dir [])])],
      trace =
        [Mkdir my_docs,
         Log ''Creating a new Specra documentation site in /home/my-docs'',
         Log [],
         Log ''Using template: clash'',
         Log [],
         Copy [''pkg'', ''templates'', ''clash''] my_docs,
         WriteFile (my_docs @ [''package.json'']) (JSON_stringify patched_manifest @ newline)]\<rparr>"

section \<open>Facts about the file system and the pipeline\<close>

lemma run_stages_append:
  "run_stages (xs @ ys) w =
     (case run_stages xs w of (None, w') \<Rightarrow> run_stages ys w' | (Some oc, w') \<Rightarrow> (Some oc, w'))"
  by (induction xs arbitrary: w) (auto split: prod.splits option.splits)

lemma lookup_append:
  "lookup fs (p @ q) = (case lookup fs p of None \<Rightarrow> None | Some n \<Rightarrow> lookup n q)"
proof (induction fs p rule: lookup.induct)
  case (1 n)
  then show ?case by simp
next
  case (2 c s p)
  then show ?case by simp
next
  case (3 es s p)
  then show ?case by (simp split: option.splits)
qed

lemma lookup_put_same: "put p n fs = Some fs' \<Longrightarrow> lookup fs' p = Some n"
proof (induction p n fs arbitrary: fs' rule: put.induct)
  case (1 n t)
  then show ?case by simp
next
  case (2 s p n c)
  then show ?case by simp
next
  case (3 s p n es)
  then show ?case
    by (auto simp: update_conv' split: if_splits option.splits)
qed

lemma lookup_put_other:
  "put (p @ [a]) n fs = Some fs' \<Longrightarrow> a \<noteq> b \<Longrightarrow> lookup fs' (p @ b # q) = lookup fs (p @ b # q)"
proof (induction p arbitrary: fs fs')
  case Nil
  then show ?case by (cases fs) (auto simp: update_conv')
next
  case (Cons s p)
  then show ?case
    by (cases fs) (auto simp: update_conv' split: option.splits)
qed

lemma put_succeeds: "lookup fs p = Some m \<Longrightarrow> \<exists>fs'. put p n fs = Some fs'"
proof (induction fs p rule: lookup.induct)
  case (1 n)
  then show ?case by simp
next
  case (2 c s p)
  then show ?case by simp
next
  case (3 es s p)
  then show ?case by (auto split: option.splits)
qed

lemma put_new_entry:
  "lookup fs p = Some (Dir es) \<Longrightarrow> \<exists>fs'. put (p @ [a]) n fs = Some fs'"
proof (induction fs p rule: lookup.induct)
  case (1 n)
  then show ?case by simp
next
  case (2 c s p)
  then show ?case by simp
next
  case (3 es s p)
  then show ?case by (auto split: option.splits)
qed

lemma lookup_remove_same: "remove p fs = Some fs' \<Longrightarrow> lookup fs' p = None"
proof (induction p fs arbitrary: fs' rule: remove.induct)
  case (1 t)
  then show ?case by simp
next
  case (2 s p c)
  then show ?case by simp
next
  case (3 s p es)
  then show ?case
    by (auto simp: update_conv' delete_conv' split: if_splits option.splits)
qed

lemma lookup_remove_other:
  "remove (p @ [a]) fs = Some fs' \<Longrightarrow> a \<noteq> b \<Longrightarrow> lookup fs' (p @ b # q) = lookup fs (p @ b # q)"
proof (induction p arbitrary: fs fs')
  case Nil
  then show ?case by (cases fs) (auto simp: delete_conv' split: option.splits)
next
  case (Cons s p)
  then show ?case
    by (cases fs) (auto simp: update_conv' split: option.splits)
qed

lemma remove_succeeds: "lookup fs p = Some m \<Longrightarrow> p \<noteq> [] \<Longrightarrow> \<exists>fs'. remove p fs = Some fs'"
proof (induction fs p rule: lookup.induct)
  case (1 n)
  then show ?case by simp
next
  case (2 c s p)
  then show ?case by simp
next
  case (3 es s p)
  then show ?case by (auto split: option.splits)
qed

lemma remove_keeps_parent:
  "remove (p @ [a]) fs = Some fs' \<Longrightarrow> \<exists>es. lookup fs' p = Some (Dir es)"
proof (induction p arbitrary: fs fs')
  case Nil
  then show ?case by (cases fs) (auto split: option.splits)
next
  case (Cons s p)
  then show ?case
    by (cases fs) (auto simp: update_conv' split: option.splits)
qed

lemma mkdirp_creates:
  "mkdirp p fs = Some fs' \<Longrightarrow> lookup fs p = None \<Longrightarrow> lookup fs' p = Some (Dir [])"
proof (induction p fs arbitrary: fs' rule: mkdirp.induct)
  case (1 es)
  then show ?case by simp
next
  case (2 c)
  then show ?case by simp
next
  case (3 s p c)
  then show ?case by simp
next
  case (4 s p es)
  then show ?case
    by (cases p) (auto simp: update_conv' split: option.splits)
qed

lemma lookup_empty_dir: "r \<noteq> [] \<Longrightarrow> lookup (Dir []) r = None"
  by (cases r) simp_all

lemma mkdirp_frame:
  "mkdirp p fs = Some fs' \<Longrightarrow> \<not> prefix q p \<Longrightarrow> lookup fs' q = lookup fs q"
proof (induction p fs arbitrary: fs' q rule: mkdirp.induct)
  case (1 es)
  then show ?case by simp
next
  case (2 c)
  then show ?case by simp
next
  case (3 s p c)
  then show ?case by simp
next
  case (4 s p es)
  then show ?case
  proof (cases q)
    case Nil
    then show ?thesis using 4 by simp
  next
    case (Cons b r)
    show ?thesis
    proof (cases "b = s")
      case True
      from Cons 4(3) True have "r \<noteq> []" by auto
      with True Cons 4 show ?thesis
        by (auto simp: update_conv' lookup_empty_dir split: option.splits)
    next
      case False
      with Cons 4 show ?thesis
        by (auto simp: update_conv' split: option.splits)
    qed
  qed
qed

lemma isFolderEmpty_disallowed:
  assumes "lookup fs p = Some (Dir es)" "(name, n) \<in> set es" "name \<notin> set (validFiles e)"
  shows "isFolderEmpty e fs p = Some False"
proof -
  have "name \<in> set (map fst es)" using assms(2) by force
  then have "\<not> list_all (\<lambda>x. x \<in> set (validFiles e)) (map fst es)"
    using assms(3) by (auto simp: list_all_iff)
  then show ?thesis using assms(1) by (simp add: isFolderEmpty_def)
qed

lemma createProject_first_stage_ends:
  "checkDirectory e (projectName opts) (project_root e opts) w = (Some oc, w')
   \<Longrightarrow> createProject e opts w = (oc, w')"
  by (simp add: createProject_def stages_def Let_def finish_def)

lemma example_root:
  "project_root (example_env ex) (request ''existing-dir'' t s) = [''home'', ''existing-dir'']"
  by (simp add: project_root_def example_env_def request_def path_resolve_def step_segment_def)

lemma mkdirp_keeps_missing:
  "mkdirp p fs = Some fs' \<Longrightarrow> \<not> prefix q p \<Longrightarrow> \<not> existsSync fs q \<Longrightarrow> \<not> existsSync fs' q"
  by (simp add: existsSync_def mkdirp_frame)

lemma new_events_append [simp]: "new_events w (w'\<lparr>trace := trace w @ evs\<rparr>) = evs"
  by (simp add: new_events_def)

lemma new_events_self [simp]: "new_events w w = []"
  by (simp add: new_events_def)

lemma resolveTemplate_unknown:
  "\<not> existsSync (files w) tdir \<Longrightarrow>
   resolveTemplate root t tdir w =
     (Some (Exited 1),
      w\<lparr>trace := trace w @ [Log (''Creating a new Specra documentation site in '' @ path_string root),
                               Log [], Err (''Template '' @ t @ '' not found.'')]\<rparr>)"
  by (simp add: resolveTemplate_def console_log_def console_error_def Let_def)

lemma createProject_second_stage_ends:
  "checkDirectory e (projectName opts) (project_root e opts) w = (None, w1) \<Longrightarrow>
   resolveTemplate (project_root e opts) (template opts) (templateDir e (template opts)) w1 = (Some oc, w2)
   \<Longrightarrow> createProject e opts w = (oc, w2)"
  by (simp add: createProject_def stages_def Let_def finish_def)

lemma request_fields [simp]:
  "projectName (request n t s) = n" "template (request n t s) = t"
  "packageManager (request n t s) = ''pnpm''" "skipInstall (request n t s) = s"
  by (simp_all add: request_def)

lemma example_env_fields [simp]:
  "cwd (example_env ex) = [''home'']" "dirname (example_env ex) = [''pkg'', ''dist'']"
  "writable (example_env ex) = all_writable"
  "validFiles (example_env ex) = [''.git'', ''.DS_Store'', ''LICENSE'']"
  "JSON_read (example_env ex) = example_read" "exec (example_env ex) = ex"
  by (simp_all add: example_env_def)

lemma example_template_dir: "templateDir (example_env ex) t = path_join [''pkg'', ''dist''] [''..'', ''templates'', t]"
  by (simp add: templateDir_def example_env_def)

lemma nope_dir: "templateDir (example_env ex) ''nope'' = [''pkg'', ''templates'', ''nope'']"
  by (simp add: example_template_dir path_join_def step_segment_def)

lemma new_dir_root: "project_root (example_env ex) (request ''new-dir'' t s) = [''home'', ''new-dir'']"
  by (simp add: project_root_def example_env_def request_def path_resolve_def step_segment_def)

lemma my_docs_root: "project_root (example_env ex) (request ''my-docs'' t s) = my_docs"
  by (simp add: project_root_def path_resolve_def step_segment_def my_docs_def)

lemma minimal_dir: "templateDir (example_env ex) ''minimal'' = [''pkg'', ''templates'', ''minimal'']"
  by (simp add: example_template_dir path_join_def step_segment_def)

lemma patch_example: "set_property template_manifest ''name'' (JStr ''my-docs'') = Some patched_manifest"
  by (simp add: set_property_def template_manifest_def patched_manifest_def)

lemma not_array_index [simp]: "\<not> is_digit (hd k) \<Longrightarrow> \<not> is_array_index k"
  by (cases k) (simp_all add: is_array_index_def)

lemma construct_template: "construct template_manifest = template_manifest"
  by (simp add: template_manifest_def own_properties_def define_members_def is_digit_def)

lemma parse_example:
  "JSON_parse (example_env ex) (JSON_stringify template_manifest) = Some template_manifest"
  by (simp add: JSON_parse_def example_read_def construct_template)

lemma example_reaches_3:
  "reaches 3 (example_env ex) (request ''my-docs'' ''minimal'' s) example_world =
     Some \<lparr>files =
        Dir [(''pkg'', Dir [(''dist'', Dir [(''index.js'', File [])]),
                           (''templates'', Dir [(''minimal'', minimal_template)])]),
             (''home'',
              Dir [(''existing-dir'', Dir [(''notes.txt'', File ''keep'')]),
                   (''my-docs'', minimal_template)])],
      trace = take 6 (trace scaffolded)\<rparr>"
  by (simp add: reaches_def stages_def Let_def my_docs_root minimal_dir
      checkDirectory_def existsSync_def example_world_def example_files_def mkdirSync_def
      resolveTemplate_def console_log_def console_error_def copyRecursive_def copy_tree_def
      minimal_template_def graft_entries_def scaffolded_def path_basename_def my_docs_def
      path_string_def)

lemma length_stages [simp]: "length (stages e opts) = 8"
  by (simp add: stages_def Let_def)

lemma reaches_step:
  assumes "reaches n e opts w = Some w1" "n < 8"
  shows "reaches (Suc n) e opts w =
           (case (stages e opts ! n) w1 of (None, w2) \<Rightarrow> Some w2 | (Some oc, w2) \<Rightarrow> None)"
proof -
  have "take (Suc n) (stages e opts) = take n (stages e opts) @ [stages e opts ! n]"
    using assms(2) by (simp add: take_Suc_conv_app_nth)
  then show ?thesis
    using assms(1)
    by (auto simp: reaches_def run_stages_append split: prod.splits option.splits)
qed

lemma stages_nth:
  "stages e opts ! 3 = updatePackageJson e (project_root e opts) (path_basename (project_root e opts))"
  "stages e opts ! 4 = renameGitignore (project_root e opts)"
  "stages e opts ! 5 =
     installDependencies e (project_root e opts) (packageManager opts) (skipInstall opts)"
  by (simp_all add: stages_def Let_def)

lemma reaches_4:
  "reaches 3 e opts w = Some w1 \<Longrightarrow>
   reaches 4 e opts w =
     (case updatePackageJson e (project_root e opts) (path_basename (project_root e opts)) w1 of
        (None, w2) \<Rightarrow> Some w2 | (Some oc, w2) \<Rightarrow> None)"
  using reaches_step [of 3 e opts w w1] by (simp add: stages_nth)

lemma reaches_5:
  "reaches 4 e opts w = Some w1 \<Longrightarrow>
   reaches 5 e opts w =
     (case renameGitignore (project_root e opts) w1 of
        (None, w2) \<Rightarrow> Some w2 | (Some oc, w2) \<Rightarrow> None)"
  using reaches_step [of 4 e opts w w1] by (simp add: stages_nth)

lemma reaches_6:
  "reaches 5 e opts w = Some w1 \<Longrightarrow>
   reaches 6 e opts w =
     (case installDependencies e (project_root e opts) (packageManager opts) (skipInstall opts) w1 of
        (None, w2) \<Rightarrow> Some w2 | (Some oc, w2) \<Rightarrow> None)"
  using reaches_step [of 5 e opts w w1] by (simp add: stages_nth)

lemma example_reaches_4:
  "reaches 4 (example_env ex) (request ''my-docs'' ''minimal'' s) example_world =
     Some \<lparr>files =
        Dir [(''pkg'', Dir [(''dist'', Dir [(''index.js'', File [])]),
                           (''templates'', Dir [(''minimal'', minimal_template)])]),
             (''home'',
              Dir [(''existing-dir'', Dir [(''notes.txt'', File ''keep'')]),
                   (''my-docs'',
                    Dir [(''package.json'', File (JSON_stringify patched_manifest @ newline)),
                         (''gitignore'', File ''node_modules''),
                         (''docs'', Dir [(''index.mdx'', File ''# Welcome'')])])])],
      trace = take 7 (trace scaffolded)\<rparr>"
  by (simp add: reaches_4 [OF example_reaches_3] my_docs_root updatePackageJson_def
      readFileSync_def minimal_template_def parse_example patch_example writeFileSync_def
      write_file_def path_basename_def my_docs_def scaffolded_def)

lemma example_reaches_5:
  "reaches 5 (example_env ex) (request ''my-docs'' ''minimal'' s) example_world = Some scaffolded"
  by (simp add: reaches_5 [OF example_reaches_4] my_docs_root renameGitignore_def
      existsSync_def renameSync_def rename_node_def my_docs_def scaffolded_def)

lemma createProject_from:
  assumes "reaches n e opts w = Some w1"
  shows "createProject e opts w = finish (run_stages (drop n (stages e opts)) w1)"
proof -
  have "run_stages (take n (stages e opts) @ drop n (stages e opts)) w
          = run_stages (drop n (stages e opts)) w1"
    using assms unfolding run_stages_append
    by (auto simp: reaches_def split: prod.splits option.splits)
  then show ?thesis by (simp add: createProject_def)
qed

lemma stages_drop:
  "drop 5 (stages e opts) =
     [installDependencies e (project_root e opts) (packageManager opts) (skipInstall opts),
      initializeGit e (project_root e opts),
      successMessage (projectName opts) (path_basename (project_root e opts)) (project_root e opts)
        (packageManager opts)]"
  "drop 6 (stages e opts) =
     [initializeGit e (project_root e opts),
      successMessage (projectName opts) (path_basename (project_root e opts)) (project_root e opts)
        (packageManager opts)]"
  by (simp_all add: stages_def Let_def)

lemma emits_run_stages: "list_all (emits P) ss \<Longrightarrow> emits P (run_stages ss)"
proof (induction ss)
  case Nil
  then show ?case by (simp add: emits_def)
next
  case (Cons s ss)
  then have s: "emits P s" and ss: "emits P (run_stages ss)" by simp_all
  show ?case
    unfolding emits_def
  proof
    fix w
    obtain r w1 where sw: "s w = (r, w1)" by (cases "s w")
    from s obtain evs1 where e1: "trace w1 = trace w @ evs1" "list_all P evs1"
      unfolding emits_def using sw by (metis snd_conv)
    show "\<exists>evs. trace (snd (run_stages (s # ss) w)) = trace w @ evs \<and> list_all P evs"
    proof (cases r)
      case None
      from ss obtain evs2 where
        e2: "trace (snd (run_stages ss w1)) = trace w1 @ evs2" "list_all P evs2"
        unfolding emits_def by blast
      have "trace (snd (run_stages (s # ss) w)) = trace w @ (evs1 @ evs2)"
        using sw None e1 e2 by simp
      moreover have "list_all P (evs1 @ evs2)" using e1 e2 by simp
      ultimately show ?thesis by blast
    next
      case (Some oc)
      then show ?thesis using sw e1 by auto
    qed
  qed
qed

lemma emitsI:
  "(\<And>w. \<exists>evs. trace (snd (s w)) = trace w @ evs \<and> list_all P evs) \<Longrightarrow> emits P s"
  by (simp add: emits_def)

lemma emits_checkDirectory: "emits (\<lambda>ev. \<not> is_spawn ev) (checkDirectory e name root)"
  by (rule emitsI)
    (auto simp: checkDirectory_def console_error_def mkdirSync_def split: option.splits)

lemma emits_resolveTemplate: "emits (\<lambda>ev. \<not> is_spawn ev) (resolveTemplate root t tdir)"
  by (rule emitsI) (auto simp: resolveTemplate_def console_error_def console_log_def Let_def)

lemma emits_copyRecursive: "emits (\<lambda>ev. \<not> is_spawn ev) (copyRecursive src dest)"
  by (rule emitsI) (auto simp: copyRecursive_def split: option.splits)

lemma emits_updatePackageJson: "emits (\<lambda>ev. \<not> is_spawn ev) (updatePackageJson e root appName)"
  by (rule emitsI)
    (auto simp: updatePackageJson_def writeFileSync_def Let_def split: option.splits sum.splits)

lemma emits_renameGitignore: "emits (\<lambda>ev. \<not> is_spawn ev) (renameGitignore root)"
  by (rule emitsI)
    (auto simp: renameGitignore_def renameSync_def Let_def split: option.splits sum.splits)

lemma emits_skipped_install: "emits (\<lambda>ev. \<not> is_spawn ev) (installDependencies e root pm True)"
  by (rule emitsI) (auto simp: installDependencies_def)

lemma emits_successMessage: "emits (\<lambda>ev. \<not> is_spawn ev) (successMessage name appName root pm)"
  by (rule emitsI) (auto simp: successMessage_def list_all_iff)

lemma tryGitInit_cases:
  "tryGitInit e root w =
     (let (ok1, fs1) = exec e git_init root (files w) in
      if \<not> ok1 then (False, w\<lparr>files := fs1, trace := trace w @ [Spawn git_init root]\<rparr>)
      else (let (ok2, fs2) = exec e git_commit root fs1 in
            (ok2, w\<lparr>files := fs2, trace := trace w @ [Spawn git_init root, Spawn git_commit root]\<rparr>)))"
  by (simp add: tryGitInit_def execSync_def Let_def split: prod.splits)

lemma emits_initializeGit: "emits (vcs_spawn root) (initializeGit e root)"
  by (rule emitsI)
    (auto simp: initializeGit_def tryGitInit_cases vcs_spawn_def console_log_def Let_def
      split: prod.splits)

lemma emits_weaken: "emits P s \<Longrightarrow> (\<And>ev. P ev \<Longrightarrow> Q ev) \<Longrightarrow> emits Q s"
  unfolding emits_def list_all_iff by blast

lemma quiet_is_vcs_spawn: "\<not> is_spawn ev \<Longrightarrow> vcs_spawn root ev"
  by (simp add: vcs_spawn_def)

lemma skip_run_emits:
  assumes "skipInstall opts"
  shows "emits (vcs_spawn (project_root e opts)) (run_stages (stages e opts))"
proof (rule emits_run_stages)
  note q = emits_weaken [OF _ quiet_is_vcs_spawn]
  show "list_all (emits (vcs_spawn (project_root e opts))) (stages e opts)"
    using assms
    by (simp add: stages_def Let_def q [OF emits_checkDirectory] q [OF emits_resolveTemplate]
        q [OF emits_copyRecursive] q [OF emits_updatePackageJson] q [OF emits_renameGitignore]
        q [OF emits_skipped_install] q [OF emits_successMessage] emits_initializeGit)
qed

lemma take_5_stages_skip:
  "take 5 (stages e (opts\<lparr>skipInstall := b\<rparr>)) = take 5 (stages e opts)"
  by (simp add: stages_def Let_def project_root_def)

lemma snd_finish [simp]: "snd (finish r) = snd r"
  by (cases r) (auto simp: finish_def split: option.splits)

lemma example_run_A:
  "createProject (example_env commands_succeed) (request ''my-docs'' ''minimal'' True) example_world =
     (Returned,
      scaffolded\<lparr>trace := trace scaffolded @
         [Spawn git_init my_docs, Spawn git_commit my_docs,
          Log ''Initialized a git repository.'', Log []]
         @ map Log (success_lines ''my-docs'' ''my-docs'' my_docs ''pnpm'')\<rparr>)"
  by (simp add: createProject_from [OF example_reaches_5] stages_drop finish_def my_docs_root
      installDependencies_def initializeGit_def tryGitInit_cases commands_succeed_def
      console_log_def successMessage_def path_basename_def my_docs_def)

lemma update_other_entries:
  "filter (\<lambda>p. fst p \<noteq> k) (AList.update k v ps) = filter (\<lambda>p. fst p \<noteq> k) ps"
  by (induction ps) auto

lemma stringify_object:
  "ps \<noteq> [] \<Longrightarrow>
   JSON_stringify (JObj ps) =
     ''{'' @ newline
       @ join ('','' @ newline) (map (\<lambda>(k, v). ''  '' @ quote k @ '': '' @ ser v 1) ps)
       @ newline @ ''}''"
  by (simp add: JSON_stringify_def bracket_def indent_def case_prod_unfold comp_def
      eval_nat_numeral)

lemma update_not_empty: "AList.update k v ps \<noteq> []"
  by (cases ps) auto

lemma emits_installDependencies: "emits (\<lambda>ev. True) (installDependencies e root pm skip)"
  by (rule emitsI)
    (auto simp: installDependencies_def execSync_def console_log_def console_error_def Let_def
      split: prod.splits)

lemma later_stages_extend:
  "emits (\<lambda>ev. True) (run_stages (drop 4 (stages e opts)))"
proof (rule emits_run_stages)
  have t: "emits P s \<Longrightarrow> emits (\<lambda>ev. True) s" for P s
    by (erule emits_weaken) simp
  show "list_all (emits (\<lambda>ev. True)) (drop 4 (stages e opts))"
    by (simp add: stages_def Let_def t [OF emits_renameGitignore] emits_installDependencies
        t [OF emits_initializeGit] t [OF emits_successMessage])
qed

lemma manifest_readD:
  assumes "manifest_read e opts w = Some doc"
  obtains wc old where "reaches 3 e opts w = Some wc"
    "lookup (files wc) (manifest_path e opts) = Some (File old)" "JSON_parse e old = Some doc"
  using assms
  by (auto simp: manifest_read_def file_text_def readFileSync_def
      split: option.splits sum.splits node.splits)

lemma write_existing_file:
  assumes "lookup fs p = Some (File old)"
  obtains fs' where "write_file p new fs = Inr fs'" "lookup fs' p = Some (File new)"
proof -
  obtain fs' where "put p (File new) fs = Some fs'"
    using put_succeeds [OF assms] by blast
  then show ?thesis
    using assms that by (simp add: write_file_def lookup_put_same)
qed

lemma split_on_nonempty: "split_on c xs \<noteq> []"
  by (induction xs) (auto split: list.splits)

lemma split_on_append: "split_on c (xs @ c # ys) = split_on c xs @ split_on c ys"
proof (induction xs)
  case Nil
  then show ?case by simp
next
  case (Cons x xs)
  then show ?case
    using split_on_nonempty [of c xs] by (cases "split_on c xs") auto
qed

lemma split_on_no_sep: "c \<notin> set seg \<Longrightarrow> split_on c seg = [seg]"
  by (induction seg) auto

lemma basename_of_nested_path:
  assumes "CHR ''/'' \<notin> set seg" "seg \<noteq> []" "seg \<noteq> ''.''" "seg \<noteq> ''..''"
  shows "path_basename (path_resolve base (dir @ ''/'' @ seg)) = seg"
proof -
  have "split_on CHR ''/'' (dir @ CHR ''/'' # seg) = split_on CHR ''/'' dir @ [seg]"
    using assms(1) by (simp add: split_on_append split_on_no_sep)
  then show ?thesis
    using assms(2-4) by (simp add: path_resolve_def path_basename_def step_segment_def)
qed

lemma example_manifest_read:
  "manifest_read (example_env ex) (request ''my-docs'' ''minimal'' s) example_world
     = Some template_manifest"
  by (simp add: manifest_read_def example_reaches_3 file_text_def readFileSync_def
      manifest_path_def my_docs_root my_docs_def minimal_template_def parse_example)

lemma rename_file_in_place:
  assumes src: "lookup fs (root @ [a]) = Some (File c)"
      and free: "\<And>ds. lookup fs (root @ [b]) \<noteq> Some (Dir ds)"
      and ne: "a \<noteq> b"
  obtains fs' where "rename_node (root @ [a]) (root @ [b]) fs = Inr fs'"
    "lookup fs' (root @ [b]) = Some (File c)" "lookup fs' (root @ [a]) = None"
    "\<And>name q. name \<noteq> a \<Longrightarrow> name \<noteq> b \<Longrightarrow>
        lookup fs' (root @ name # q) = lookup fs (root @ name # q)"
proof -
  obtain fs1 where r: "remove (root @ [a]) fs = Some fs1"
    using remove_succeeds [OF src] by auto
  obtain es where "lookup fs1 root = Some (Dir es)"
    using remove_keeps_parent [OF r] by blast
  then obtain fs2 where p: "put (root @ [b]) (File c) fs1 = Some fs2"
    using put_new_entry by blast
  have "rename_node (root @ [a]) (root @ [b]) fs = Inr fs2"
    using src free r p
    by (auto simp: rename_node_def split: option.splits node.splits list.splits)
  moreover have "lookup fs2 (root @ [b]) = Some (File c)"
    using p by (rule lookup_put_same)
  moreover have "lookup fs2 (root @ [a]) = None"
    using lookup_put_other [OF p, of a "[]"] lookup_remove_same [OF r] ne by simp
  moreover have "lookup fs2 (root @ name # q) = lookup fs (root @ name # q)"
    if "name \<noteq> a" "name \<noteq> b" for name q
    using lookup_put_other [OF p, of name q] lookup_remove_other [OF r, of name q] that by simp
  ultimately show ?thesis using that by blast
qed

lemma bare_dir: "templateDir (example_env ex) ''bare'' = [''pkg'', ''templates'', ''bare'']"
  by (simp add: example_template_dir path_join_def step_segment_def)

lemma bare_reaches_3:
  "reaches 3 (example_env ex) (request ''my-docs'' ''bare'' s) bare_world =
     Some \<lparr>files =
        Dir [(''pkg'', Dir [(''dist'', Dir []),
                           (''templates'',
                            Dir [(''bare'',
                                  Dir [(''package.json'', File (JSON_stringify template_manifest))])])]),
             (''home'',
              Dir [(''my-docs'',
                    Dir [(''package.json'', File (JSON_stringify template_manifest))])])],
      trace = take 6 (trace bare_patched)\<rparr>"
  by (simp add: reaches_def stages_def Let_def my_docs_root bare_dir
      checkDirectory_def existsSync_def bare_world_def mkdirSync_def
      resolveTemplate_def console_log_def console_error_def copyRecursive_def copy_tree_def
      graft_entries_def bare_patched_def path_basename_def my_docs_def path_string_def)

lemma bare_reaches_4:
  "reaches 4 (example_env ex) (request ''my-docs'' ''bare'' s) bare_world = Some bare_patched"
  by (simp add: reaches_4 [OF bare_reaches_3] my_docs_root updatePackageJson_def
      readFileSync_def parse_example patch_example writeFileSync_def
      write_file_def path_basename_def my_docs_def bare_patched_def)

lemma run_stages_not_returned:
  "list_all (\<lambda>s. \<forall>w. fst (s w) \<noteq> Some Returned) ss \<Longrightarrow> fst (run_stages ss w) \<noteq> Some Returned"
proof (induction ss arbitrary: w)
  case Nil
  then show ?case by simp
next
  case (Cons s ss)
  then have "fst (s w) \<noteq> Some Returned" by simp
  with Cons show ?case
    by (cases "s w") (auto split: option.splits)
qed

lemma first_stages_not_returned:
  "fst (run_stages (take 4 (stages e opts)) w) \<noteq> Some Returned"
proof (rule run_stages_not_returned)
  show "list_all (\<lambda>s. \<forall>w. fst (s w) \<noteq> Some Returned) (take 4 (stages e opts))"
    by (auto simp: stages_def Let_def checkDirectory_def mkdirSync_def resolveTemplate_def
        copyRecursive_def updatePackageJson_def writeFileSync_def
        split: option.splits sum.splits)
qed

lemma successful_run_reaches_4:
  assumes "createProject e opts w = (Returned, w')"
  obtains wp where "reaches 4 e opts w = Some wp"
proof (cases "run_stages (take 4 (stages e opts)) w")
  case (Pair r wp)
  show ?thesis
  proof (cases r)
    case None
    with Pair that show ?thesis by (simp add: reaches_def)
  next
    case (Some oc)
    have "run_stages (take 4 (stages e opts) @ drop 4 (stages e opts)) w = (Some oc, wp)"
      unfolding run_stages_append using Pair Some by simp
    then have "createProject e opts w = (oc, wp)"
      by (simp add: createProject_def finish_def)
    with assms have "oc = Returned" by simp
    with first_stages_not_returned [of e opts w] Pair Some show ?thesis by simp
  qed
qed

lemma successful_run_reads_manifest:
  assumes "createProject e opts w = (Returned, w')"
  shows "(\<exists>ps. manifest_read e opts w = Some (JObj ps))
       \<or> (\<exists>xs. manifest_read e opts w = Some (JArr xs))"
proof -
  from assms obtain wp where wp: "reaches 4 e opts w = Some wp"
    by (rule successful_run_reaches_4)
  have t: "take 4 (stages e opts) = take 3 (stages e opts) @ [stages e opts ! 3]"
    by (simp add: stages_def Let_def)
  from wp obtain wc where wc: "reaches 3 e opts w = Some wc"
    and step: "(stages e opts ! 3) wc = (None, wp)"
    unfolding reaches_def t run_stages_append
    by (auto split: prod.splits option.splits)
  from step show ?thesis
    by (auto simp: stages_nth updatePackageJson_def manifest_read_def wc file_text_def
        manifest_path_def set_property_def Let_def
        split: sum.splits option.splits jsval.splits)
qed

lemma construct_rich: "construct rich_manifest = rich_manifest"
  by (simp add: rich_manifest_def own_properties_def define_members_def is_digit_def)

lemma rewrite_rich:
  "map_option (\<lambda>doc. JSON_stringify doc @ newline)
     (set_property rich_manifest ''name'' (JStr ''my-docs'')) = Some rich_written"
  by code_simp

lemma index_examples:
  "is_array_index ''2''" "is_array_index ''10''" "\<not> is_array_index ''version''"
  "\<not> is_array_index ''name''" "index_value ''2'' = 2" "index_value ''10'' = 10"
  by (simp_all add: is_array_index_def index_value_def is_digit_def)

lemma construct_numbered:
  "construct numbered_manifest =
     JObj [(''2'', JStr ''two''), (''10'', JStr ''ten''), (''version'', JStr ''0.2.0''),
           (''name'', JStr ''t'')]"
  by (simp add: numbered_manifest_def own_properties_def define_members_def index_examples)

lemma serialise_numbered:
  "JSON_stringify
     (JObj [(''2'', JStr ''two''), (''10'', JStr ''ten''), (''version'', JStr ''0.2.0''),
            (''name'', JStr ''my-docs'')]) @ newline = numbered_written"
  by code_simp

lemma rewrite_numbered:
  "map_option (\<lambda>doc. JSON_stringify doc @ newline)
     (set_property (construct numbered_manifest) ''name'' (JStr ''my-docs'')) = Some numbered_written"
  by (simp add: construct_numbered set_property_def serialise_numbered)

lemma rewrite_list:
  "map_option (\<lambda>doc. JSON_stringify doc @ newline)
     (set_property (JArr []) ''name'' (JStr ''my-docs'')) = Some (''[]'' @ [CHR 0x0A])"
  by code_simp

lemma template_dir_of_name:
  "CHR ''/'' \<notin> set t \<Longrightarrow> t \<noteq> [] \<Longrightarrow> t \<noteq> ''.'' \<Longrightarrow> t \<noteq> ''..'' \<Longrightarrow>
   templateDir (example_env ex) t = [''pkg'', ''templates'', t]"
  by (simp add: example_template_dir path_join_def step_segment_def split_on_no_sep)

lemma installation_reaches_3:
  assumes tdir: "templateDir (example_env ex) t = [''pkg'', ''templates'', t]"
      and copy: "graft tn (Some (Dir [])) = Some copied"
  shows "reaches 3 (example_env ex) (request ''my-docs'' t s)
           \<lparr>files = installation t tn [], trace = []\<rparr> =
         Some \<lparr>files = installation t tn [(''my-docs'', copied)],
               trace =
                 [Mkdir my_docs,
                  Log ''Creating a new Specra documentation site in /home/my-docs'',
                  Log [],
                  Log (''Using template: '' @ t),
                  Log [],
                  Copy [''pkg'', ''templates'', t] my_docs]\<rparr>"
  using copy
  by (simp add: reaches_def stages_def Let_def my_docs_root tdir installation_def
      checkDirectory_def existsSync_def mkdirSync_def resolveTemplate_def console_log_def
      console_error_def copyRecursive_def copy_tree_def path_basename_def my_docs_def
      path_string_def)

lemma fst_initializeGit: "fst (initializeGit e root w) = None"
  by (simp add: initializeGit_def Let_def split: prod.splits)

lemma stages_drop_4:
  "drop 4 (stages e opts) =
     [renameGitignore (project_root e opts),
      installDependencies e (project_root e opts) (packageManager opts) (skipInstall opts),
      initializeGit e (project_root e opts),
      successMessage (projectName opts) (path_basename (project_root e opts)) (project_root e opts)
        (packageManager opts)]"
  by (simp add: stages_def Let_def)

lemma run_returns_after_manifest:
  assumes "reaches 4 e opts w = Some wp" "skipInstall opts"
      and "\<not> existsSync (files wp) (project_root e opts @ [''gitignore''])"
  shows "fst (createProject e opts w) = Returned"
proof -
  obtain r w1 where g: "initializeGit e (project_root e opts) wp = (r, w1)"
    by (cases "initializeGit e (project_root e opts) wp")
  then have "r = None" using fst_initializeGit [of e "project_root e opts" wp] by simp
  with g assms show ?thesis
    by (simp add: createProject_from [OF assms(1)] stages_drop_4 renameGitignore_def
        installDependencies_def successMessage_def finish_def)
qed

lemma read_examples:
  "example_read ''[]'' = Some (JArr [])"
  "example_read rich_source = Some rich_manifest"
  "example_read numbered_source = Some numbered_manifest"
  by code_simp+

lemma parse_examples:
  "JSON_parse (example_env ex) ''[]'' = Some (JArr [])"
  "JSON_parse (example_env ex) rich_source = Some rich_manifest"
  "JSON_parse (example_env ex) numbered_source = Some (construct numbered_manifest)"
  by (simp_all add: JSON_parse_def read_examples construct_rich)

lemma rewritten:
  assumes "map_option (\<lambda>doc. JSON_stringify doc @ newline) (set_property d k v) = Some new"
  obtains doc' where "set_property d k v = Some doc'" "JSON_stringify doc' @ newline = new"
  using assms by (cases "set_property d k v") auto

lemma list_reaches_3:
  "reaches 3 (example_env ex) (request ''my-docs'' ''list'' s)
           \<lparr>files = installation ''list'' list_template [], trace = []\<rparr> =
         Some \<lparr>files = installation ''list'' list_template [(''my-docs'', list_template)],
               trace =
                 [Mkdir my_docs,
                  Log ''Creating a new Specra documentation site in /home/my-docs'',
                  Log [],
                  Log (''Using template: '' @ ''list''),
                  Log [],
                  Copy [''pkg'', ''templates'', ''list''] my_docs]\<rparr>"
  by (rule installation_reaches_3)
    (simp_all add: template_dir_of_name list_template_def graft_entries_def)

lemma list_reaches_4:
  "reaches 4 (example_env ex) (request ''my-docs'' ''list'' s)
           \<lparr>files = installation ''list'' list_template [], trace = []\<rparr> =
         Some \<lparr>files = installation ''list'' list_template
                         [(''my-docs'', Dir [(''package.json'', File (''[]'' @ [CHR 0x0A]))])],
               trace =
                 [Mkdir my_docs,
                  Log ''Creating a new Specra documentation site in /home/my-docs'',
                  Log [],
                  Log (''Using template: '' @ ''list''),
                  Log [],
                  Copy [''pkg'', ''templates'', ''list''] my_docs,
                  WriteFile (my_docs @ [''package.json'']) (''[]'' @ [CHR 0x0A])]\<rparr>"
proof -
  from rewrite_list obtain doc' where
    "set_property (JArr []) ''name'' (JStr ''my-docs'') = Some doc'"
    "JSON_stringify doc' @ newline = ''[]'' @ [CHR 0x0A]"
    by (rule rewritten)
  then show ?thesis
    unfolding reaches_4 [OF list_reaches_3]
    by (simp add: my_docs_root updatePackageJson_def
        readFileSync_def installation_def list_template_def parse_examples writeFileSync_def
        write_file_def path_basename_def my_docs_def)
qed

lemma numbered_reaches_3:
  "reaches 3 (example_env ex) (request ''my-docs'' ''numbered'' s)
           \<lparr>files = installation ''numbered'' numbered_template [], trace = []\<rparr> =
         Some \<lparr>files = installation ''numbered'' numbered_template [(''my-docs'', numbered_template)],
               trace =
                 [Mkdir my_docs,
                  Log ''Creating a new Specra documentation site in /home/my-docs'',
                  Log [],
                  Log (''Using template: '' @ ''numbered''),
                  Log [],
                  Copy [''pkg'', ''templates'', ''numbered''] my_docs]\<rparr>"
  by (rule installation_reaches_3)
    (simp_all add: template_dir_of_name numbered_template_def graft_entries_def)

lemma numbered_reaches_4:
  "reaches 4 (example_env ex) (request ''my-docs'' ''numbered'' s)
           \<lparr>files = installation ''numbered'' numbered_template [], trace = []\<rparr> =
         Some \<lparr>files = installation ''numbered'' numbered_template
                         [(''my-docs'', Dir [(''package.json'', File numbered_written)])],
               trace =
                 [Mkdir my_docs,
                  Log ''Creating a new Specra documentation site in /home/my-docs'',
                  Log [],
                  Log (''Using template: '' @ ''numbered''),
                  Log [],
                  Copy [''pkg'', ''templates'', ''numbered''] my_docs,
                  WriteFile (my_docs @ [''package.json'']) numbered_written]\<rparr>"
proof -
  from rewrite_numbered obtain doc' where
    "set_property (construct numbered_manifest) ''name'' (JStr ''my-docs'') = Some doc'"
    "JSON_stringify doc' @ newline = numbered_written"
    by (rule rewritten)
  then show ?thesis
    unfolding reaches_4 [OF numbered_reaches_3]
    by (simp add: my_docs_root updatePackageJson_def
        readFileSync_def installation_def numbered_template_def parse_examples writeFileSync_def
        write_file_def path_basename_def my_docs_def)
qed

lemma clash_reaches_3:
  "reaches 3 (example_env ex) (request ''my-docs'' ''clash'' s)
           \<lparr>files = installation ''clash'' clash_template [], trace = []\<rparr> =
         Some \<lparr>files = installation ''clash'' clash_template [(''my-docs'', clash_template)],
               trace =
                 [Mkdir my_docs,
                  Log ''Creating a new Specra documentation site in /home/my-docs'',
                  Log [],
                  Log (''Using template: '' @ ''clash''),
                  Log [],
                  Copy [''pkg'', ''templates'', ''clash''] my_docs]\<rparr>"
  by (rule installation_reaches_3)
    (simp_all add: template_dir_of_name clash_template_def graft_entries_def)

lemma clash_reaches_4:
  "reaches 4 (example_env ex) (request ''my-docs'' ''clash'' s)
           \<lparr>files = installation ''clash'' clash_template [], trace = []\<rparr> = Some clash_patched"
  unfolding reaches_4 [OF clash_reaches_3]
  by (simp add: my_docs_root updatePackageJson_def
      readFileSync_def installation_def clash_template_def parse_example patch_example
      writeFileSync_def write_file_def path_basename_def my_docs_def clash_patched_def)

lemma nested_root:
  "project_root (example_env ex) (request ''nested/deep/my-docs'' t s)
     = [''home'', ''nested'', ''deep'', ''my-docs'']"
  by (simp add: project_root_def path_resolve_def step_segment_def)

lemma rich_reaches_3:
  "reaches 3 (example_env ex) (request ''nested/deep/my-docs'' ''rich'' s)
           \<lparr>files = installation ''rich'' rich_template [], trace = []\<rparr> =
         Some \<lparr>files = installation ''rich'' rich_template
                         [(''nested'', Dir [(''deep'', Dir [(''my-docs'', rich_template)])])],
               trace =
                 [Mkdir [''home'', ''nested'', ''deep'', ''my-docs''],
                  Log ''Creating a new Specra documentation site in /home/nested/deep/my-docs'',
                  Log [],
                  Log ''Using template: rich'',
                  Log [],
                  Copy [''pkg'', ''templates'', ''rich'']
                    [''home'', ''nested'', ''deep'', ''my-docs'']]\<rparr>"
  by (simp add: reaches_def stages_def Let_def nested_root template_dir_of_name installation_def
      checkDirectory_def existsSync_def mkdirSync_def resolveTemplate_def console_log_def
      console_error_def copyRecursive_def copy_tree_def path_basename_def
      path_string_def rich_template_def graft_entries_def)

lemma rich_reaches_4:
  "reaches 4 (example_env ex) (request ''nested/deep/my-docs'' ''rich'' s)
           \<lparr>files = installation ''rich'' rich_template [], trace = []\<rparr> =
         Some \<lparr>files = installation ''rich'' rich_template
                         [(''nested'',
                           Dir [(''deep'',
                                 Dir [(''my-docs'',
                                       Dir [(''package.json'', File rich_written),
                                            (''docs'', Dir [(''index.mdx'', File ''# Welcome'')])])])])],
               trace =
                 [Mkdir [''home'', ''nested'', ''deep'', ''my-docs''],
                  Log ''Creating a new Specra documentation site in /home/nested/deep/my-docs'',
                  Log [],
                  Log ''Using template: rich'',
                  Log [],
                  Copy [''pkg'', ''templates'', ''rich'']
                    [''home'', ''nested'', ''deep'', ''my-docs''],
                  WriteFile [''home'', ''nested'', ''deep'', ''my-docs'', ''package.json'']
                    rich_written]\<rparr>"
proof -
  from rewrite_rich obtain doc' where
    "set_property rich_manifest ''name'' (JStr ''my-docs'') = Some doc'"
    "JSON_stringify doc' @ newline = rich_written"
    by (rule rewritten)
  then show ?thesis
    unfolding reaches_4 [OF rich_reaches_3]
    by (simp add: nested_root updatePackageJson_def
        readFileSync_def installation_def rich_template_def parse_examples writeFileSync_def
        write_file_def path_basename_def)
qed

lemma list_run:
  "fst (createProject (example_env ex) (request ''my-docs'' ''list'' True)
          \<lparr>files = installation ''list'' list_template [], trace = []\<rparr>) = Returned"
  "manifest_source (example_env ex) (request ''my-docs'' ''list'' True)
          \<lparr>files = installation ''list'' list_template [], trace = []\<rparr> = Some (JArr [])"
  "manifest_written (example_env ex) (request ''my-docs'' ''list'' True)
          \<lparr>files = installation ''list'' list_template [], trace = []\<rparr>
     = Some (''[]'' @ [CHR 0x0A])"
proof -
  show "fst (createProject (example_env ex) (request ''my-docs'' ''list'' True)
          \<lparr>files = installation ''list'' list_template [], trace = []\<rparr>) = Returned"
    by (rule run_returns_after_manifest [OF list_reaches_4])
      (simp_all add: my_docs_root my_docs_def existsSync_def installation_def)
  show "manifest_source (example_env ex) (request ''my-docs'' ''list'' True)
          \<lparr>files = installation ''list'' list_template [], trace = []\<rparr> = Some (JArr [])"
    unfolding manifest_source_def list_reaches_3
    by (simp add: file_text_def readFileSync_def manifest_path_def my_docs_root my_docs_def installation_def
    list_template_def read_examples)
  show "manifest_written (example_env ex) (request ''my-docs'' ''list'' True)
          \<lparr>files = installation ''list'' list_template [], trace = []\<rparr>
     = Some (''[]'' @ [CHR 0x0A])"
    unfolding manifest_written_def list_reaches_4
    by (simp add: file_text_def readFileSync_def manifest_path_def my_docs_root my_docs_def installation_def
    list_template_def read_examples)
qed

lemma numbered_run:
  "fst (createProject (example_env ex) (request ''my-docs'' ''numbered'' True)
          \<lparr>files = installation ''numbered'' numbered_template [], trace = []\<rparr>) = Returned"
  "manifest_source (example_env ex) (request ''my-docs'' ''numbered'' True)
          \<lparr>files = installation ''numbered'' numbered_template [], trace = []\<rparr>
     = Some numbered_manifest"
  "manifest_written (example_env ex) (request ''my-docs'' ''numbered'' True)
          \<lparr>files = installation ''numbered'' numbered_template [], trace = []\<rparr>
     = Some numbered_written"
proof -
  show "fst (createProject (example_env ex) (request ''my-docs'' ''numbered'' True)
          \<lparr>files = installation ''numbered'' numbered_template [], trace = []\<rparr>) = Returned"
    by (rule run_returns_after_manifest [OF numbered_reaches_4])
      (simp_all add: my_docs_root my_docs_def existsSync_def installation_def)
  show "manifest_source (example_env ex) (request ''my-docs'' ''numbered'' True)
          \<lparr>files = installation ''numbered'' numbered_template [], trace = []\<rparr>
     = Some numbered_manifest"
    unfolding manifest_source_def numbered_reaches_3
    by (simp add: file_text_def readFileSync_def manifest_path_def my_docs_root my_docs_def installation_def
    numbered_template_def read_examples)
  show "manifest_written (example_env ex) (request ''my-docs'' ''numbered'' True)
          \<lparr>files = installation ''numbered'' numbered_template [], trace = []\<rparr>
     = Some numbered_written"
    unfolding manifest_written_def numbered_reaches_4
    by (simp add: file_text_def readFileSync_def manifest_path_def my_docs_root my_docs_def installation_def
    numbered_template_def read_examples)
qed

lemma rich_run:
  "fst (createProject (example_env ex) (request ''nested/deep/my-docs'' ''rich'' True)
          \<lparr>files = installation ''rich'' rich_template [], trace = []\<rparr>) = Returned"
  "manifest_source (example_env ex) (request ''nested/deep/my-docs'' ''rich'' True)
          \<lparr>files = installation ''rich'' rich_template [], trace = []\<rparr>
     = Some rich_manifest"
  "manifest_written (example_env ex) (request ''nested/deep/my-docs'' ''rich'' True)
          \<lparr>files = installation ''rich'' rich_template [], trace = []\<rparr>
     = Some rich_written"
proof -
  show "fst (createProject (example_env ex) (request ''nested/deep/my-docs'' ''rich'' True)
          \<lparr>files = installation ''rich'' rich_template [], trace = []\<rparr>) = Returned"
    by (rule run_returns_after_manifest [OF rich_reaches_4])
      (simp_all add: nested_root existsSync_def installation_def)
  show "manifest_source (example_env ex) (request ''nested/deep/my-docs'' ''rich'' True)
          \<lparr>files = installation ''rich'' rich_template [], trace = []\<rparr>
     = Some rich_manifest"
    unfolding manifest_source_def rich_reaches_3
    by (simp add: file_text_def readFileSync_def manifest_path_def nested_root installation_def
    rich_template_def read_examples)
  show "manifest_written (example_env ex) (request ''nested/deep/my-docs'' ''rich'' True)
          \<lparr>files = installation ''rich'' rich_template [], trace = []\<rparr>
     = Some rich_written"
    unfolding manifest_written_def rich_reaches_4
    by (simp add: file_text_def readFileSync_def manifest_path_def nested_root installation_def
    rich_template_def read_examples)
qed

lemma clash_run:
  "createProject (example_env ex) (request ''my-docs'' ''clash'' True)
     \<lparr>files = installation ''clash'' clash_template [], trace = []\<rparr> = (Threw EISDIR, clash_patched)"
  unfolding createProject_from [OF clash_reaches_4]
  by (simp add: stages_drop_4 finish_def my_docs_root
      renameGitignore_def existsSync_def renameSync_def rename_node_def clash_patched_def
      installation_def my_docs_def)

text \<open>
  The guide's validator reads a property that the answer of the name library does not
  have, so it reports no name valid, also one with which the library finds nothing wrong.
\<close>

lemma validateProjectName_never_valid: "validateProjectName validateNpmName name \<noteq> Valid"
  by (simp add: validateProjectName_def valid_def truthy_def Let_def)

lemma accepted_name_is_reported_invalid:
  "validateProjectName reports_nothing ''my-docs'' = Invalid []"
  by (simp add: validateProjectName_def valid_def truthy_def Let_def reports_nothing_def
      or_empty_def)

text \<open>The rewrite of the manifest, for a manifest that is a JSON object.\<close>

lemma update_new_key: "k \<notin> fst ` set ps \<Longrightarrow> AList.update k v ps = ps @ [(k, v)]"
  by (induction ps) auto

lemma define_members_onto:
  "distinct (map fst ms) \<Longrightarrow> fst ` set ps \<inter> fst ` set ms = {} \<Longrightarrow>
   fold (\<lambda>(k, v) ps. AList.update k v ps) ms ps = ps @ ms"
proof (induction ms arbitrary: ps)
  case Nil
  then show ?case by simp
next
  case (Cons m ms)
  obtain k v where m: "m = (k, v)" by (cases m)
  have new: "k \<notin> fst ` set ps" using Cons.prems(2) m by auto
  have "fst ` set (ps @ [(k, v)]) \<inter> fst ` set ms = {}"
    using Cons.prems m by auto
  moreover have "distinct (map fst ms)" using Cons.prems(1) by simp
  ultimately have "fold (\<lambda>(k, v) ps. AList.update k v ps) ms (ps @ [(k, v)]) = (ps @ [(k, v)]) @ ms"
    by (rule Cons.IH [rotated])
  then show ?case using m new by (simp add: update_new_key)
qed

lemma own_properties_plain:
  assumes "distinct (map fst ms)" "list_all (\<lambda>k. \<not> is_array_index k) (map fst ms)"
  shows "own_properties ms = ms"
proof -
  have d: "define_members ms = ms"
    using define_members_onto [OF assms(1), of "[]"] by (simp add: define_members_def)
  have "filter (\<lambda>p. is_array_index (fst p)) ms = []"
    "filter (\<lambda>p. \<not> is_array_index (fst p)) ms = ms"
    using assms(2) by (auto simp: list_all_iff filter_empty_conv filter_id_conv)
  then show ?thesis by (simp add: own_properties_def d)
qed

lemma basename_of_plain_name:
  assumes "CHR ''/'' \<notin> set seg" "seg \<noteq> []" "seg \<noteq> ''.''" "seg \<noteq> ''..''"
  shows "path_basename (path_resolve base seg) = seg"
proof -
  have "hd seg \<noteq> CHR ''/''" using assms(1,2) by (cases seg) auto
  then show ?thesis
    using assms by (simp add: path_resolve_def path_basename_def step_segment_def split_on_no_sep)
qed

lemma join_concat: "join sep (x # xs) = x @ concat (map (\<lambda>y. sep @ y) xs)"
  by (induction xs arbitrary: x) auto

lemma stringify_object_lines:
  assumes "ps \<noteq> []"
  shows "JSON_stringify (JObj ps) @ newline =
     ''{'' @ [CHR 0x0A]
       @ ''  '' @ quote (fst (hd ps)) @ '': '' @ ser (snd (hd ps)) 1
       @ concat (map (\<lambda>p. '','' @ [CHR 0x0A] @ ''  '' @ quote (fst p) @ '': '' @ ser (snd p) 1)
                   (tl ps))
       @ [CHR 0x0A] @ ''}'' @ [CHR 0x0A]"
proof -
  obtain p qs where ps: "ps = p # qs" using assms by (cases ps) auto
  show ?thesis
    unfolding stringify_object [OF assms]
    by (simp add: ps join_concat newline_def case_prod_unfold comp_def)
qed

lemma manifest_sourceD:
  assumes "manifest_source e opts w = Some doc"
  shows "manifest_read e opts w = Some (construct doc)"
  using assms
  by (auto simp: manifest_source_def manifest_read_def JSON_parse_def split: option.splits)

lemma manifest_rewritten:
  assumes run: "createProject e opts w = (Returned, w')"
      and read: "manifest_read e opts w = Some (JObj ps)"
  shows "manifest_written e opts w
           = Some (JSON_stringify
                     (JObj (AList.update ''name'' (JStr (path_basename (project_root e opts))) ps))
                   @ newline)"
    and "WriteFile (manifest_path e opts)
           (JSON_stringify
              (JObj (AList.update ''name'' (JStr (path_basename (project_root e opts))) ps))
            @ newline) \<in> set (trace w')"
proof -
  let ?name = "path_basename (project_root e opts)"
  let ?ps' = "AList.update ''name'' (JStr ?name) ps"
  let ?text' = "JSON_stringify (JObj ?ps') @ newline"
  let ?mp = "manifest_path e opts"
  from read obtain wc src where
    wc: "reaches 3 e opts w = Some wc" and
    old: "lookup (files wc) ?mp = Some (File src)" and
    parse: "JSON_parse e src = Some (JObj ps)"
    by (rule manifest_readD)
  from old obtain fs' where
    wr: "write_file ?mp ?text' (files wc) = Inr fs'" and new: "lookup fs' ?mp = Some (File ?text')"
    by (rule write_existing_file)
  let ?wp = "wc\<lparr>files := fs', trace := trace wc @ [WriteFile ?mp ?text']\<rparr>"
  have step: "updatePackageJson e (project_root e opts) ?name wc = (None, ?wp)"
    using old parse wr
    by (simp add: updatePackageJson_def manifest_path_def readFileSync_def set_property_def
        writeFileSync_def)
  have wp: "reaches 4 e opts w = Some ?wp"
    by (simp add: reaches_4 [OF wc] step)
  show "manifest_written e opts w = Some ?text'"
    using new by (simp add: manifest_written_def wp file_text_def readFileSync_def)
  obtain evs where "trace (snd (run_stages (drop 4 (stages e opts)) ?wp)) = trace ?wp @ evs"
    using later_stages_extend [of e opts] unfolding emits_def by blast
  moreover have "w' = snd (run_stages (drop 4 (stages e opts)) ?wp)"
    using run createProject_from [OF wp] by (metis snd_conv snd_finish)
  ultimately show "WriteFile ?mp ?text' \<in> set (trace w')" by simp
qed

section \<open>Properties of package-manager detection\<close>

lemma fold_set_flag:
  "useNpm (fold set_flag fs options) = (useNpm options \<or> UseNpm \<in> set fs)"
  "useYarn (fold set_flag fs options) = (useYarn options \<or> UseYarn \<in> set fs)"
  "usePnpm (fold set_flag fs options) = (usePnpm options \<or> UsePnpm \<in> set fs)"
  by (induction fs arbitrary: options; auto simp: set_flag_def split: selection_flag.splits)+

lemma flags_given_fields:
  "useNpm (flags_given fs) = (UseNpm \<in> set fs)"
  "useYarn (flags_given fs) = (UseYarn \<in> set fs)"
  "usePnpm (flags_given fs) = (UsePnpm \<in> set fs)"
  by (simp_all add: flags_given_def fold_set_flag)

lemma includes_yarn_example: "str_includes ''yarn/1.22.19 npm/? node/v20.1.0'' ''yarn''"
  by simp

text \<open>
  C6. Resolution is a function of the override and of the user agent alone, and it
  follows the precedence of the specification: an override always wins over whatever
  the user agent says, the user agent's signal (yarn or pnpm) wins over the default, and
  the default is npm. In particular an override of pnpm with a yarn user agent resolves
  to pnpm, and no override with no user agent resolves to npm.
\<close>

theorem detectPackageManager_precedence:
  "detectPackageManager (override_options ov) userAgent = resolve_spec ov (env_signal userAgent)
   \<and> detectPackageManager (override_options (Some m)) userAgent = m
   \<and> detectPackageManager (override_options None) userAgent
       = (case env_signal userAgent of Some s \<Rightarrow> s | None \<Rightarrow> Npm)
   \<and> detectPackageManager (override_options (Some Pnpm)) (Some ''yarn/1.22.19 npm/? node/v20.1.0'') = Pnpm
   \<and> env_signal (Some ''yarn/1.22.19 npm/? node/v20.1.0'') = Some Yarn
   \<and> detectPackageManager (override_options None) None = Npm"
proof -
  have general: "detectPackageManager (override_options v) ua = resolve_spec v (env_signal ua)"
    for v ua
    by (cases v; cases "the v")
      (simp_all add: detectPackageManager_def override_options_def resolve_spec_def env_signal_def)
  have signal: "env_signal (Some ''yarn/1.22.19 npm/? node/v20.1.0'') = Some Yarn"
    by (simp add: env_signal_def opt_includes_def)
  have none: "env_signal None = None"
    by (simp add: env_signal_def opt_includes_def)
  show ?thesis
    by (simp add: general signal none resolve_spec_def)
qed

text \<open>
  C10. When several selection flags are set at once, the order of the checks decides:
  the npm flag wins over the yarn flag, which wins over the pnpm flag, whatever the user
  agent says. The order in which the flags were given does not matter: the result is
  decided by which flags were given, npm first, then yarn, then pnpm, and only with none
  of them by the user agent.
\<close>

theorem detectPackageManager_flag_order:
  "detectPackageManager \<lparr>useNpm = True, useYarn = y, usePnpm = p\<rparr> userAgent = Npm
   \<and> detectPackageManager \<lparr>useNpm = False, useYarn = True, usePnpm = p\<rparr> userAgent = Yarn
   \<and> detectPackageManager \<lparr>useNpm = False, useYarn = False, usePnpm = True\<rparr> userAgent = Pnpm
   \<and> detectPackageManager (flags_given fs) userAgent =
       (if UseNpm \<in> set fs then Npm
        else if UseYarn \<in> set fs then Yarn
        else if UsePnpm \<in> set fs then Pnpm
        else detectPackageManager (flags_given []) userAgent)
   \<and> detectPackageManager (flags_given (rev fs)) userAgent
       = detectPackageManager (flags_given fs) userAgent
   \<and> detectPackageManager (flags_given [UsePnpm, UseYarn, UseNpm]) userAgent = Npm
   \<and> detectPackageManager (flags_given [UseNpm, UseYarn, UsePnpm]) userAgent = Npm
   \<and> detectPackageManager (flags_given [UsePnpm, UseYarn]) userAgent = Yarn
   \<and> detectPackageManager (flags_given [UseYarn, UsePnpm]) userAgent = Yarn"
proof -
  have given: "detectPackageManager (flags_given gs) userAgent =
       (if UseNpm \<in> set gs then Npm
        else if UseYarn \<in> set gs then Yarn
        else if UsePnpm \<in> set gs then Pnpm
        else detectPackageManager (flags_given []) userAgent)" for gs
    by (simp add: detectPackageManager_def flags_given_fields)
  have "detectPackageManager (flags_given (rev fs)) userAgent
       = detectPackageManager (flags_given fs) userAgent"
    by (simp add: given)
  moreover have "detectPackageManager (flags_given [UsePnpm, UseYarn, UseNpm]) userAgent = Npm"
    "detectPackageManager (flags_given [UseNpm, UseYarn, UsePnpm]) userAgent = Npm"
    "detectPackageManager (flags_given [UsePnpm, UseYarn]) userAgent = Yarn"
    "detectPackageManager (flags_given [UseYarn, UsePnpm]) userAgent = Yarn"
    by (simp_all add: given)
  ultimately show ?thesis
    using given [of fs] by (simp add: detectPackageManager_def)
qed

section \<open>The destination check\<close>

text \<open>
  C1. Every run whose destination already exists and holds at least one entry outside
  the allow-list ends with exit code 1 and leaves the file system exactly as it found
  it. All that the run does is print one error line: there is no directory made, no
  copy, no manifest written, no rename, no command spawned.
\<close>

theorem nonempty_destination_aborts:
  assumes dir: "lookup (files w) (project_root e opts) = Some (Dir es)"
      and entry: "(name, n) \<in> set es"
      and disallowed: "name \<notin> set (validFiles e)"
  shows "fst (createProject e opts w) = Exited 1
       \<and> files (snd (createProject e opts w)) = files w
       \<and> (\<exists>msg. trace (snd (createProject e opts w)) = trace w @ [Err msg])"
proof -
  let ?root = "project_root e opts"
  have ex: "existsSync (files w) ?root" using dir by (simp add: existsSync_def)
  have ne: "isFolderEmpty e (files w) ?root = Some False"
    using dir entry disallowed by (rule isFolderEmpty_disallowed)
  obtain msg where
    "checkDirectory e (projectName opts) ?root w = (Some (Exited 1), console_error msg w)"
    using ex ne by (cases "isWriteable e ?root") (simp_all add: checkDirectory_def)
  then have "createProject e opts w = (Exited 1, console_error msg w)"
    by (rule createProject_first_stage_ends)
  then show ?thesis by (auto simp: console_error_def)
qed

text \<open>The run of scenario C: \<^verbatim>\<open>existing-dir/notes.txt\<close> is there beforehand.\<close>

theorem nonempty_destination_aborts_witness:
  "lookup (files example_world)
      (project_root (example_env commands_succeed) (request ''existing-dir'' ''minimal'' True))
     = Some (Dir [(''notes.txt'', File ''keep'')])
   \<and> ''notes.txt'' \<notin> set (validFiles (example_env commands_succeed))
   \<and> fst (createProject (example_env commands_succeed) (request ''existing-dir'' ''minimal'' True)
           example_world) = Exited 1
   \<and> files (snd (createProject (example_env commands_succeed)
                   (request ''existing-dir'' ''minimal'' True) example_world))
       = example_files"
proof -
  have dir: "lookup (files example_world)
      (project_root (example_env commands_succeed) (request ''existing-dir'' ''minimal'' True))
     = Some (Dir [(''notes.txt'', File ''keep'')])"
    by (simp add: example_root example_world_def example_files_def)
  have entry: "(''notes.txt'', File ''keep'') \<in> set [(''notes.txt'', File ''keep'')]"
    by simp
  have disallowed: "''notes.txt'' \<notin> set (validFiles (example_env commands_succeed))"
    by (simp add: example_env_def)
  show ?thesis
    using dir disallowed nonempty_destination_aborts [OF dir entry disallowed]
    by (simp add: example_world_def)
qed

section \<open>The template check\<close>

text \<open>
  C2, as stated, fails: a run with an unknown template whose destination did not exist
  leaves an empty directory at the destination. The destination check, which makes the
  directory, comes before the template check, and nothing removes the directory when the
  run exits. Here the template \<^verbatim>\<open>nope\<close> is not bundled and \<^verbatim>\<open>/home/new-dir\<close> does not
  exist; after the run, which exits with code 1, it does.
\<close>

theorem unknown_template_creates_destination:
  "\<not> existsSync (files example_world) (templateDir (example_env commands_succeed) ''nope'')
   \<and> lookup (files example_world) [''home'', ''new-dir''] = None
   \<and> project_root (example_env commands_succeed) (request ''new-dir'' ''nope'' True) = [''home'', ''new-dir'']
   \<and> fst (createProject (example_env commands_succeed) (request ''new-dir'' ''nope'' True) example_world) = Exited 1
   \<and> lookup (files (snd (createProject (example_env commands_succeed) (request ''new-dir'' ''nope'' True) example_world)))
        [''home'', ''new-dir''] = Some (Dir [])"
  by (simp add: nope_dir new_dir_root createProject_def stages_def Let_def finish_def
      checkDirectory_def existsSync_def example_world_def example_files_def mkdirSync_def
      resolveTemplate_def console_log_def console_error_def)

text \<open>
  C2, amended. For every run whose template identifier does not resolve to an existing
  bundled template directory (the destination not lying at or below that missing path),
  the run ends before any copy, manifest write, rename or spawned command: with exit
  code 1, or, when the destination path is or runs through a file, with the exception
  of the destination check and nothing done at all. A destination that existed
  beforehand is left exactly as found. A destination that did not exist has been created
  by then, as an empty directory with its missing parents, and it stays.
\<close>

theorem unknown_template_fails_before_copy:
  assumes unknown: "\<not> existsSync (files w) (templateDir e (template opts))"
      and apart: "\<not> prefix (templateDir e (template opts)) (project_root e opts)"
  shows "(fst (createProject e opts w) = Exited 1
            \<or> createProject e opts w = (Threw ENOTDIR, w))
       \<and> list_all (\<lambda>ev. \<not> builds ev) (new_events w (snd (createProject e opts w)))
       \<and> (existsSync (files w) (project_root e opts)
            \<longrightarrow> files (snd (createProject e opts w)) = files w)
       \<and> (\<not> existsSync (files w) (project_root e opts)
            \<longrightarrow> fst (createProject e opts w) = Exited 1
            \<longrightarrow> mkdirp (project_root e opts) (files w) = Some (files (snd (createProject e opts w)))
                \<and> lookup (files (snd (createProject e opts w))) (project_root e opts) = Some (Dir []))"
proof -
  let ?root = "project_root e opts"
  let ?tdir = "templateDir e (template opts)"
  let ?check = "checkDirectory e (projectName opts) ?root w"
  show ?thesis
  proof (cases "existsSync (files w) ?root")
    case True
    show ?thesis
    proof (cases "fst ?check")
      case None
      then have chk: "?check = (None, w)"
        using True by (auto simp: checkDirectory_def split: if_splits option.splits)
      have "createProject e opts w =
          (Exited 1, w\<lparr>trace := trace w @ [Log (''Creating a new Specra documentation site in '' @ path_string ?root),
                               Log [], Err (''Template '' @ template opts @ '' not found.'')]\<rparr>)"
        using createProject_second_stage_ends [OF chk resolveTemplate_unknown [OF unknown]] .
      then show ?thesis using True by simp
    next
      case (Some oc)
      then obtain w' where chk: "?check = (Some oc, w')" by (cases ?check) auto
      then have cp: "createProject e opts w = (oc, w')"
        by (rule createProject_first_stage_ends)
      from chk True have
        "(oc = Exited 1 \<and> (\<exists>msg. w' = w\<lparr>trace := trace w @ [Err msg]\<rparr>)) \<or> (oc = Threw ENOTDIR \<and> w' = w)"
        by (auto simp: checkDirectory_def console_error_def split: if_splits option.splits)
      then show ?thesis using cp True by auto
    qed
  next
    case False
    then have chk: "?check = mkdirSync ?root w" by (simp add: checkDirectory_def)
    show ?thesis
    proof (cases "mkdirp ?root (files w)")
      case None
      then have "?check = (Some (Threw ENOTDIR), w)" using chk by (simp add: mkdirSync_def)
      then have "createProject e opts w = (Threw ENOTDIR, w)"
        by (rule createProject_first_stage_ends)
      then show ?thesis using False by simp
    next
      case (Some fs')
      let ?w1 = "w\<lparr>files := fs', trace := trace w @ [Mkdir ?root]\<rparr>"
      have chk1: "?check = (None, ?w1)" using chk Some by (simp add: mkdirSync_def)
      have "\<not> existsSync fs' ?tdir"
        using Some apart unknown by (rule mkdirp_keeps_missing)
      then have "\<not> existsSync (files ?w1) ?tdir" by simp
      from createProject_second_stage_ends [OF chk1 resolveTemplate_unknown [OF this]]
      have cp: "createProject e opts w =
          (Exited 1, w\<lparr>files := fs', trace := trace w @ [Mkdir ?root,
              Log (''Creating a new Specra documentation site in '' @ path_string ?root),
              Log [], Err (''Template '' @ template opts @ '' not found.'')]\<rparr>)"
        by simp
      have "lookup fs' ?root = Some (Dir [])"
        using Some False by (simp add: mkdirp_creates existsSync_def)
      then show ?thesis using cp False Some by (simp add: new_events_def)
    qed
  qed
qed

theorem unknown_template_fails_before_copy_witness:
  "\<not> existsSync (files example_world) (templateDir (example_env commands_succeed) (template (request ''fresh'' ''nope'' True)))
   \<and> fst (createProject (example_env commands_succeed) (request ''fresh'' ''nope'' True) example_world) = Exited 1
   \<and> list_all (\<lambda>ev. \<not> builds ev)
        (new_events example_world (snd (createProject (example_env commands_succeed) (request ''fresh'' ''nope'' True) example_world)))"
proof -
  let ?e = "example_env commands_succeed"
  let ?o = "request ''fresh'' ''nope'' True"
  have t: "template ?o = ''nope''" by simp
  have unknown: "\<not> existsSync (files example_world) (templateDir ?e (template ?o))"
    by (simp add: t nope_dir existsSync_def example_world_def example_files_def)
  have root: "project_root ?e ?o = [''home'', ''fresh'']"
    by (simp add: project_root_def example_env_def request_def path_resolve_def step_segment_def)
  have apart: "\<not> prefix (templateDir ?e (template ?o)) (project_root ?e ?o)"
    by (simp add: t nope_dir root)
  have noexc: "createProject ?e ?o example_world \<noteq> (Threw ENOTDIR, example_world)"
    by (simp add: nope_dir root t createProject_def stages_def Let_def finish_def
      checkDirectory_def existsSync_def example_world_def example_files_def mkdirSync_def
      resolveTemplate_def console_log_def console_error_def)
  show ?thesis
    using unknown noexc unknown_template_fails_before_copy [OF unknown apart]
    by simp
qed

section \<open>The install step\<close>

text \<open>
  C3. What the code does when the spawned install command exits non-zero: the run ends
  with exit code 1; nothing is rolled back, the files are those that the failed command
  left; and after the command the run prints one line, \<^verbatim>\<open>Failed to install dependencies.\<close>
  The manual command sequence of the claim (\<^verbatim>\<open>cd\<close> into the project, the install command
  of the package manager), which the developer guide shows in its section on installation
  failure, is not printed.
\<close>

theorem install_failure_prints_no_remedy:
  assumes reach: "reaches 5 e opts w = Some w1"
      and install: "\<not> skipInstall opts"
      and failed: "\<not> fst (exec e (install (getPackageManagerCommand (packageManager opts)))
                          (project_root e opts) (files w1))"
  shows "createProject e opts w =
           (Exited 1,
            w1\<lparr>files := snd (exec e (install (getPackageManagerCommand (packageManager opts)))
                                (project_root e opts) (files w1)),
               trace := trace w1 @
                 [Log ''Installing dependencies...'',
                  Log [],
                  Spawn (install (getPackageManagerCommand (packageManager opts))) (project_root e opts),
                  Err ''Failed to install dependencies.'']\<rparr>)
       \<and> Log (''  cd '' @ projectName opts) \<notin> set (new_events w1 (snd (createProject e opts w)))
       \<and> Log (''  '' @ install (getPackageManagerCommand (packageManager opts)))
            \<notin> set (new_events w1 (snd (createProject e opts w)))"
proof -
  let ?cmd = "install (getPackageManagerCommand (packageManager opts))"
  let ?root = "project_root e opts"
  obtain ok fs' where ex: "exec e ?cmd ?root (files w1) = (ok, fs')"
    by (cases "exec e ?cmd ?root (files w1)")
  with failed have "\<not> ok" by simp
  with ex install have
    "installDependencies e ?root (packageManager opts) (skipInstall opts) w1 =
       (Some (Exited 1),
        w1\<lparr>files := fs',
           trace := trace w1 @ [Log ''Installing dependencies...'', Log [], Spawn ?cmd ?root,
                                Err ''Failed to install dependencies.'']\<rparr>)"
    by (simp add: installDependencies_def Let_def execSync_def console_log_def console_error_def)
  then have "createProject e opts w =
       (Exited 1,
        w1\<lparr>files := fs',
           trace := trace w1 @ [Log ''Installing dependencies...'', Log [], Spawn ?cmd ?root,
                                Err ''Failed to install dependencies.'']\<rparr>)"
    by (simp add: createProject_from [OF reach] stages_drop finish_def)
  then show ?thesis using ex by (simp add: new_events_def)
qed

theorem install_failure_prints_no_remedy_witness:
  "createProject (example_env commands_fail) (request ''my-docs'' ''minimal'' False) example_world =
     (Exited 1,
      scaffolded\<lparr>trace := trace scaffolded @
         [Log ''Installing dependencies...'',
          Log [],
          Spawn ''pnpm install'' my_docs,
          Err ''Failed to install dependencies.'']\<rparr>)"
proof -
  let ?e = "example_env commands_fail"
  let ?o = "request ''my-docs'' ''minimal'' False"
  have reach: "reaches 5 ?e ?o example_world = Some scaffolded"
    by (rule example_reaches_5)
  have install: "\<not> skipInstall ?o" by simp
  have failed: "\<not> fst (exec ?e (install (getPackageManagerCommand (packageManager ?o)))
                          (project_root ?e ?o) (files scaffolded))"
    by (simp add: commands_fail_def)
  show ?thesis
    using install_failure_prints_no_remedy [OF reach install failed]
    by (simp add: commands_fail_def my_docs_root getPackageManagerCommand_def pm_name_def)
qed

section \<open>Skipping the installation\<close>

text \<open>
  C4, as stated, fails: a run with \<open>skipInstall = true\<close> does spawn commands. The call
  of \<open>tryGitInit\<close> stands behind the \<^verbatim>\<open>if (!skipInstall)\<close> block, not inside it, and the
  VCS initialiser runs git. In scenario A the run succeeds and has spawned \<^verbatim>\<open>git init\<close> in
  the new project.
\<close>

theorem skip_install_still_spawns_git:
  "skipInstall (request ''my-docs'' ''minimal'' True)
   \<and> fst (createProject (example_env commands_succeed) (request ''my-docs'' ''minimal'' True)
           example_world) = Returned
   \<and> Spawn git_init my_docs
       \<in> set (trace (snd (createProject (example_env commands_succeed)
                          (request ''my-docs'' ''minimal'' True) example_world)))"
  by (simp add: example_run_A)

text \<open>
  C4, amended. For every run with \<open>skipInstall = true\<close>: the install step does nothing,
  so that the run comes to the VCS step with the very world with which it came to the
  install step; that world is the one with which a run with \<open>skipInstall = false\<close>
  comes to its install step (the same tree, or neither run comes that far); and the only
  commands that the run spawns are the two git commands of the best-effort VCS
  initialiser, in the project directory.
\<close>

theorem skip_install_spawns_only_vcs:
  assumes skip: "skipInstall opts"
  shows "reaches 5 e (opts\<lparr>skipInstall := False\<rparr>) w = reaches 5 e opts w
       \<and> reaches 6 e opts w = reaches 5 e opts w
       \<and> list_all (vcs_spawn (project_root e opts))
            (new_events w (snd (createProject e opts w)))"
proof -
  have a: "reaches 5 e (opts\<lparr>skipInstall := False\<rparr>) w = reaches 5 e opts w"
    by (simp add: reaches_def take_5_stages_skip)
  have b: "reaches 6 e opts w = reaches 5 e opts w"
  proof (cases "reaches 5 e opts w")
    case None
    have "take 6 (stages e opts) = take 5 (stages e opts) @ [stages e opts ! 5]"
      by (simp add: stages_def Let_def)
    then show ?thesis
      using None
      by (auto simp: reaches_def run_stages_append split: prod.splits option.splits)
  next
    case (Some w1)
    then show ?thesis
      using skip by (simp add: reaches_6 [OF Some] installDependencies_def)
  qed
  obtain evs where "trace (snd (run_stages (stages e opts) w)) = trace w @ evs"
    "list_all (vcs_spawn (project_root e opts)) evs"
    using skip_run_emits [OF skip, of e] unfolding emits_def by blast
  then have c: "list_all (vcs_spawn (project_root e opts))
            (new_events w (snd (createProject e opts w)))"
    by (simp add: createProject_def new_events_def)
  from a b c show ?thesis by simp
qed

theorem skip_install_spawns_only_vcs_witness:
  "skipInstall (request ''my-docs'' ''minimal'' True)
   \<and> reaches 5 (example_env commands_succeed) ((request ''my-docs'' ''minimal'' True)\<lparr>skipInstall := False\<rparr>)
        example_world = Some scaffolded
   \<and> reaches 6 (example_env commands_succeed) (request ''my-docs'' ''minimal'' True) example_world
        = Some scaffolded
   \<and> list_all (vcs_spawn my_docs)
        (new_events example_world
           (snd (createProject (example_env commands_succeed) (request ''my-docs'' ''minimal'' True)
                   example_world)))"
proof -
  have skip: "skipInstall (request ''my-docs'' ''minimal'' True)" by simp
  show ?thesis
    using skip skip_install_spawns_only_vcs [OF skip, of "example_env commands_succeed" example_world]
    by (simp add: example_reaches_5 my_docs_root)
qed

section \<open>Version control\<close>

text \<open>
  C7. For every run that comes to the VCS step: the run returns normally, whatever the
  git commands do; no error line is printed from that step on; \<^verbatim>\<open>git init\<close> is spawned
  exactly once, so there is no retry; and the success message closes the output either
  way. When \<^verbatim>\<open>git init\<close> fails, the run is the spawn followed by the success message, and
  nothing else.
\<close>

theorem vcs_failure_is_swallowed:
  assumes reach: "reaches 6 e opts w = Some w1"
  shows "fst (createProject e opts w) = Returned
       \<and> list_all (\<lambda>ev. \<not> is_error_line ev) (new_events w1 (snd (createProject e opts w)))
       \<and> length (filter (\<lambda>ev. ev = Spawn git_init (project_root e opts))
                    (new_events w1 (snd (createProject e opts w)))) = 1
       \<and> (\<exists>evs. trace (snd (createProject e opts w)) =
                   trace w1 @ evs
                     @ map Log (success_lines (projectName opts) (path_basename (project_root e opts))
                                  (project_root e opts) (packageManager opts)))
       \<and> (\<not> fst (exec e git_init (project_root e opts) (files w1)) \<longrightarrow>
            createProject e opts w =
              (Returned,
               w1\<lparr>files := snd (exec e git_init (project_root e opts) (files w1)),
                  trace := trace w1 @ Spawn git_init (project_root e opts)
                    # map Log (success_lines (projectName opts) (path_basename (project_root e opts))
                                 (project_root e opts) (packageManager opts))\<rparr>))"
proof -
  let ?root = "project_root e opts"
  let ?lines = "map Log (success_lines (projectName opts) (path_basename ?root) ?root (packageManager opts))"
  have ne: "git_init \<noteq> git_commit" by (simp add: git_init_def git_commit_def)
  have quiet: "filter (\<lambda>ev. ev = Spawn git_init ?root) ?lines = []"
    by (simp add: filter_empty_conv)
  have noerr: "list_all (\<lambda>ev. \<not> is_error_line ev) ?lines"
    by (simp add: list_all_iff)
  obtain ok1 fs1 where i: "exec e git_init ?root (files w1) = (ok1, fs1)"
    by (cases "exec e git_init ?root (files w1)")
  obtain ok2 fs2 where c: "exec e git_commit ?root fs1 = (ok2, fs2)"
    by (cases "exec e git_commit ?root fs1")
  have cp: "createProject e opts w =
      finish (run_stages [initializeGit e ?root,
                successMessage (projectName opts) (path_basename ?root) ?root (packageManager opts)] w1)"
    by (simp add: createProject_from [OF reach] stages_drop)
  consider (fail) "\<not> ok1" | (half) "ok1" "\<not> ok2" | (both) "ok1" "ok2" by blast
  then show ?thesis
  proof cases
    case fail
    then have "createProject e opts w =
        (Returned, w1\<lparr>files := fs1, trace := trace w1 @ Spawn git_init ?root # ?lines\<rparr>)"
      using i by (simp add: cp finish_def initializeGit_def tryGitInit_cases successMessage_def)
    then show ?thesis using i quiet noerr by (simp add: new_events_def)
  next
    case half
    then have "createProject e opts w =
        (Returned, w1\<lparr>files := fs2,
           trace := trace w1 @ [Spawn git_init ?root, Spawn git_commit ?root] @ ?lines\<rparr>)"
      using i c by (simp add: cp finish_def initializeGit_def tryGitInit_cases successMessage_def)
    then show ?thesis using i half quiet noerr ne by (simp add: new_events_def)
  next
    case both
    then have "createProject e opts w =
        (Returned, w1\<lparr>files := fs2,
           trace := trace w1 @ [Spawn git_init ?root, Spawn git_commit ?root,
             Log ''Initialized a git repository.'', Log []] @ ?lines\<rparr>)"
      using i c
      by (simp add: cp finish_def initializeGit_def tryGitInit_cases successMessage_def
          console_log_def)
    then show ?thesis using i both quiet noerr ne by (simp add: new_events_def)
  qed
qed

theorem vcs_failure_is_swallowed_witness:
  "reaches 6 (example_env commands_fail) (request ''my-docs'' ''minimal'' True) example_world
     = Some scaffolded
   \<and> fst (createProject (example_env commands_fail) (request ''my-docs'' ''minimal'' True)
           example_world) = Returned
   \<and> fst (createProject (example_env commands_succeed) (request ''my-docs'' ''minimal'' True)
           example_world) = Returned
   \<and> createProject (example_env commands_fail) (request ''my-docs'' ''minimal'' True) example_world =
       (Returned,
        scaffolded\<lparr>trace := trace scaffolded @ Spawn git_init my_docs
           # map Log (success_lines ''my-docs'' ''my-docs'' my_docs ''pnpm'')\<rparr>)"
proof -
  let ?e = "example_env commands_fail"
  let ?o = "request ''my-docs'' ''minimal'' True"
  have reach: "reaches 6 ?e ?o example_world = Some scaffolded"
    by (simp add: reaches_6 [OF example_reaches_5] installDependencies_def)
  have ok: "fst (createProject (example_env commands_succeed) ?o example_world) = Returned"
    by (simp add: example_run_A)
  show ?thesis
    using reach ok vcs_failure_is_swallowed [OF reach]
    by (simp add: commands_fail_def my_docs_root path_basename_def my_docs_def)
qed

section \<open>The manifest\<close>

text \<open>
  C5, as stated, fails, in two ways. A manifest that is a JSON array is read, takes the
  assignment of \<open>name\<close> as a property that \<^verbatim>\<open>JSON.stringify\<close> does not print, and is
  written back: the run succeeds, and the manifest written has no name field
  (\<^verbatim>\<open>[]\<close> and a newline). And the keys are not always written in the order in which they
  were read: a manifest read as \<^verbatim>\<open>version\<close>, \<^verbatim>\<open>10\<close>, \<^verbatim>\<open>name\<close>, \<^verbatim>\<open>2\<close>, \<^verbatim>\<open>version\<close> is written
  as \<^verbatim>\<open>2\<close>, \<^verbatim>\<open>10\<close>, \<^verbatim>\<open>version\<close>, \<^verbatim>\<open>name\<close> (\<open>numbered_written\<close>), because a JavaScript object
  lists its array-index keys first, in ascending order, and holds a repeated key once.
\<close>

theorem manifest_without_name_or_out_of_order:
  "fst (createProject (example_env commands_succeed) (request ''my-docs'' ''list'' True)
          \<lparr>files = installation ''list'' list_template [], trace = []\<rparr>) = Returned
   \<and> manifest_source (example_env commands_succeed) (request ''my-docs'' ''list'' True)
          \<lparr>files = installation ''list'' list_template [], trace = []\<rparr> = Some (JArr [])
   \<and> manifest_written (example_env commands_succeed) (request ''my-docs'' ''list'' True)
          \<lparr>files = installation ''list'' list_template [], trace = []\<rparr>
       = Some (''[]'' @ [CHR 0x0A])
   \<and> fst (createProject (example_env commands_succeed) (request ''my-docs'' ''numbered'' True)
          \<lparr>files = installation ''numbered'' numbered_template [], trace = []\<rparr>) = Returned
   \<and> manifest_source (example_env commands_succeed) (request ''my-docs'' ''numbered'' True)
          \<lparr>files = installation ''numbered'' numbered_template [], trace = []\<rparr>
       = Some (JObj [(''version'', JStr ''0.1.0''),
                     (''10'', JStr ''ten''),
                     (''name'', JStr ''t''),
                     (''2'', JStr ''two''),
                     (''version'', JStr ''0.2.0'')])
   \<and> manifest_written (example_env commands_succeed) (request ''my-docs'' ''numbered'' True)
          \<lparr>files = installation ''numbered'' numbered_template [], trace = []\<rparr>
       = Some numbered_written"
  using list_run [of commands_succeed] numbered_run [of commands_succeed]
  by (simp add: numbered_manifest_def)

text \<open>
  C5, amended. For every successful run whose manifest, as read after the copy, is a
  JSON object: the text written to \<^verbatim>\<open>package.json\<close>, and in the file once the run returns,
  is an opening brace, one line for each member, indented by two spaces, with the key in
  quotes, a colon, a space and the value printed one level deep, the lines separated by
  commas, then a closing brace and a trailing newline. The members are those of the
  object that was parsed, in the property order of JavaScript (\<open>own_properties\<close>: the
  order in which the keys were read, except that array-index keys come first in ascending
  order and that a repeated key stands once, at its first place, with its last value),
  with \<open>name\<close> set to the last segment of the resolved destination path: in its old place,
  or last when the manifest had none. The member under every other key is the one that
  was parsed, in the same order. When the keys read are distinct and none is an array
  index, they are written in exactly the order in which they were read. The last segment
  is that of the path given, whatever directories stand above it.
\<close>

theorem manifest_name_is_basename:
  assumes run: "createProject e opts w = (Returned, w')"
      and source: "manifest_source e opts w = Some (JObj ms)"
  shows "let name = path_basename (path_resolve (cwd e) (projectName opts));
             ps = own_properties (map (map_prod id construct) ms);
             ps' = AList.update ''name'' (JStr name) ps;
             written =
               ''{'' @ [CHR 0x0A]
                 @ ''  '' @ quote (fst (hd ps')) @ '': '' @ ser (snd (hd ps')) 1
                 @ concat (map (\<lambda>p. '','' @ [CHR 0x0A] @ ''  '' @ quote (fst p) @ '': ''
                                       @ ser (snd p) 1) (tl ps'))
                 @ [CHR 0x0A] @ ''}'' @ [CHR 0x0A]
         in manifest_written e opts w = Some written
          \<and> WriteFile (manifest_path e opts) written \<in> set (trace w')
          \<and> map_of ps' ''name'' = Some (JStr name)
          \<and> (\<forall>dir seg. (projectName opts = seg \<or> projectName opts = dir @ ''/'' @ seg)
                \<and> CHR ''/'' \<notin> set seg \<and> seg \<noteq> [] \<and> seg \<noteq> ''.'' \<and> seg \<noteq> ''..''
                \<longrightarrow> name = seg)
          \<and> map fst ps' = (if ''name'' \<in> set (map fst ps) then map fst ps
                            else map fst ps @ [''name''])
          \<and> filter (\<lambda>p. fst p \<noteq> ''name'') ps' = filter (\<lambda>p. fst p \<noteq> ''name'') ps
          \<and> (distinct (map fst ms) \<and> list_all (\<lambda>k. \<not> is_array_index k) (map fst ms)
                \<longrightarrow> ps = map (map_prod id construct) ms \<and> map fst ps = map fst ms)
          \<and> last written = CHR 0x0A"
proof -
  let ?name = "path_basename (path_resolve (cwd e) (projectName opts))"
  let ?ps = "own_properties (map (map_prod id construct) ms)"
  let ?ps' = "AList.update ''name'' (JStr ?name) ?ps"
  let ?written = "JSON_stringify (JObj ?ps') @ newline"
  let ?lines =
    "''{'' @ [CHR 0x0A]
       @ ''  '' @ quote (fst (hd ?ps')) @ '': '' @ ser (snd (hd ?ps')) 1
       @ concat (map (\<lambda>p. '','' @ [CHR 0x0A] @ ''  '' @ quote (fst p) @ '': ''
                             @ ser (snd p) 1) (tl ?ps'))
       @ [CHR 0x0A] @ ''}'' @ [CHR 0x0A]"
  have read: "manifest_read e opts w = Some (JObj ?ps)"
    using manifest_sourceD [OF source] by simp
  have fmt: "?written = ?lines"
    by (rule stringify_object_lines [OF update_not_empty])
  have root: "project_root e opts = path_resolve (cwd e) (projectName opts)"
    by (simp add: project_root_def)
  have c1: "manifest_written e opts w = Some ?lines"
    using manifest_rewritten(1) [OF run read] unfolding root fmt .
  have c2: "WriteFile (manifest_path e opts) ?lines \<in> set (trace w')"
    using manifest_rewritten(2) [OF run read] unfolding root fmt .
  have c3: "map_of ?ps' ''name'' = Some (JStr ?name)"
    by (simp add: update_conv')
  have c4: "\<forall>dir seg. (projectName opts = seg \<or> projectName opts = dir @ ''/'' @ seg)
                \<and> CHR ''/'' \<notin> set seg \<and> seg \<noteq> [] \<and> seg \<noteq> ''.'' \<and> seg \<noteq> ''..''
                \<longrightarrow> ?name = seg"
  proof (intro allI impI)
    fix dir seg
    assume a: "(projectName opts = seg \<or> projectName opts = dir @ ''/'' @ seg)
                \<and> CHR ''/'' \<notin> set seg \<and> seg \<noteq> [] \<and> seg \<noteq> ''.'' \<and> seg \<noteq> ''..''"
    then have seg: "CHR ''/'' \<notin> set seg" "seg \<noteq> []" "seg \<noteq> ''.''" "seg \<noteq> ''..''"
      by simp_all
    from a have "projectName opts = seg \<or> projectName opts = dir @ ''/'' @ seg" by simp
    then show "?name = seg"
    proof
      assume "projectName opts = seg"
      then show ?thesis using basename_of_plain_name [OF seg] by simp
    next
      assume "projectName opts = dir @ ''/'' @ seg"
      then show ?thesis using basename_of_nested_path [OF seg] by simp
    qed
  qed
  have c5: "map fst ?ps' = (if ''name'' \<in> set (map fst ?ps) then map fst ?ps
                            else map fst ?ps @ [''name''])"
    by (rule update_keys)
  have c6: "filter (\<lambda>p. fst p \<noteq> ''name'') ?ps' = filter (\<lambda>p. fst p \<noteq> ''name'') ?ps"
    by (rule update_other_entries)
  have c7: "distinct (map fst ms) \<and> list_all (\<lambda>k. \<not> is_array_index k) (map fst ms)
                \<longrightarrow> ?ps = map (map_prod id construct) ms \<and> map fst ?ps = map fst ms"
  proof
    assume a: "distinct (map fst ms) \<and> list_all (\<lambda>k. \<not> is_array_index k) (map fst ms)"
    have k: "map fst (map (map_prod id construct) ms) = map fst ms" by (simp add: comp_def)
    have "?ps = map (map_prod id construct) ms"
      by (rule own_properties_plain) (simp_all add: k a)
    then show "?ps = map (map_prod id construct) ms \<and> map fst ?ps = map fst ms"
      using k by simp
  qed
  have c8: "last ?lines = CHR 0x0A" by simp
  show ?thesis
    unfolding Let_def
    by (intro conjI) (rule c1 c2 c3 c4 c5 c6 c7 c8)+
qed

theorem manifest_name_is_basename_witness:
  "fst (createProject (example_env commands_succeed) (request ''nested/deep/my-docs'' ''rich'' True)
          \<lparr>files = installation ''rich'' rich_template [], trace = []\<rparr>) = Returned
   \<and> manifest_source (example_env commands_succeed) (request ''nested/deep/my-docs'' ''rich'' True)
          \<lparr>files = installation ''rich'' rich_template [], trace = []\<rparr> = Some rich_manifest
   \<and> path_basename (path_resolve [''home''] ''nested/deep/my-docs'') = ''my-docs''
   \<and> manifest_written (example_env commands_succeed) (request ''nested/deep/my-docs'' ''rich'' True)
          \<lparr>files = installation ''rich'' rich_template [], trace = []\<rparr> = Some rich_written"
proof -
  let ?e = "example_env commands_succeed"
  let ?o = "request ''nested/deep/my-docs'' ''rich'' True"
  let ?w = "\<lparr>files = installation ''rich'' rich_template [], trace = []\<rparr>"
  obtain w' where run: "createProject ?e ?o ?w = (Returned, w')"
    using rich_run(1) [of commands_succeed] by (metis prod.collapse)
  have source: "manifest_source ?e ?o ?w =
      Some (JObj [(''version'', JStr ''0.1.0''),
           (''name'', JStr ''specra-template-rich''),
           (''private'', JBool True),
           (''description'', JStr (''Say '' @ [CHR 0x22] @ ''hi'' @ [CHR 0x22] @ '' '' @ [CHR 0x5C] @ '' '' @ [CHR 0x0A] @ [CHR 0x09] @ [CHR 0x01] @ '' done'')),
           (''scripts'', JObj [(''dev'', JStr ''next dev''), (''build'', JStr ''next build'')]),
           (''files'', JArr [JStr ''docs'', JNum ''1'', JObj [(''deep'', JArr [JNull])]]),
           (''engines'', JObj []),
           (''keywords'', JArr []),
           (''license'', JNull)])"
    using rich_run(2) [of commands_succeed] by (simp add: rich_manifest_def)
  note t = manifest_name_is_basename [OF run source, unfolded Let_def]
  note segment = t [THEN conjunct2, THEN conjunct2, THEN conjunct2, THEN conjunct1, rule_format,
      of "''my-docs''" "''nested/deep''"]
  have name: "path_basename (path_resolve [''home''] ''nested/deep/my-docs'') = ''my-docs''"
    using segment by simp
  show ?thesis
    using name rich_run [of commands_succeed] by simp
qed

section \<open>The name validator\<close>

text \<open>
  C9, as stated, fails: the result does not tell hard errors from warnings. The code
  spreads both lists into the one list \<open>problems\<close>. A name library that reports a problem
  as a hard error and one that reports the same problem as a warning lead to the same
  result.
\<close>

theorem merged_problems_lose_the_kind:
  "validateProjectName (reports_error ''name cannot start with a period'') ''.docs''
     = validateProjectName (reports_warning ''name cannot start with a period'') ''.docs''
   \<and> errors (reports_error ''name cannot start with a period'' ''.docs'')
       \<noteq> errors (reports_warning ''name cannot start with a period'' ''.docs'')"
  by (simp add: validateProjectName_def reports_error_def reports_warning_def or_empty_def
      valid_def truthy_def)

text \<open>
  C9, amended. For every candidate name, a result that reports the name invalid carries
  one list, \<open>problems\<close>: the hard errors of the name library followed by its warnings.
  The result does not tell the two kinds apart: two answers of the library whose lists
  concatenate alike give the same invalid result.
\<close>

theorem validateProjectName_merges_problems:
  "(validateProjectName validateNpmName name \<noteq> Valid \<longrightarrow>
      validateProjectName validateNpmName name
        = Invalid (or_empty (errors (validateNpmName name))
                   @ or_empty (warnings (validateNpmName name))))
   \<and> (validateProjectName f name \<noteq> Valid \<and> validateProjectName g name \<noteq> Valid
        \<and> or_empty (errors (f name)) @ or_empty (warnings (f name))
            = or_empty (errors (g name)) @ or_empty (warnings (g name))
        \<longrightarrow> validateProjectName f name = validateProjectName g name)"
  by (simp add: validateProjectName_def Let_def)

theorem validateProjectName_merges_problems_witness:
  "validateProjectName (reports_error ''name cannot start with a period'') ''.docs'' \<noteq> Valid
   \<and> validateProjectName (reports_error ''name cannot start with a period'') ''.docs''
       = Invalid [''name cannot start with a period'']"
proof -
  have invalid:
    "validateProjectName (reports_error ''name cannot start with a period'') ''.docs'' \<noteq> Valid"
    by (simp add: validateProjectName_def valid_def truthy_def Let_def)
  show ?thesis
    using invalid validateProjectName_merges_problems
      [of "reports_error ''name cannot start with a period''" "''.docs''"]
    by (simp add: reports_error_def or_empty_def)
qed

section \<open>The ignore file\<close>

text \<open>
  C8, as stated, fails: a template that ships a file \<^verbatim>\<open>gitignore\<close> beside a directory
  \<^verbatim>\<open>.gitignore\<close> is copied and its manifest is rewritten, and then \<^verbatim>\<open>fs.renameSync\<close> throws,
  because a file cannot be renamed onto a directory. The run ends with that exception,
  and the file \<^verbatim>\<open>gitignore\<close> stands where it was, not renamed.
\<close>

theorem ignore_file_blocked_by_directory:
  "reaches 4 (example_env commands_succeed) (request ''my-docs'' ''clash'' True)
      \<lparr>files = installation ''clash'' clash_template [], trace = []\<rparr> = Some clash_patched
   \<and> lookup (files clash_patched) (my_docs @ [''gitignore'']) = Some (File ''node_modules'')
   \<and> lookup (files clash_patched) (my_docs @ [''.gitignore'']) = Some (Dir [])
   \<and> createProject (example_env commands_succeed) (request ''my-docs'' ''clash'' True)
      \<lparr>files = installation ''clash'' clash_template [], trace = []\<rparr>
       = (Threw EISDIR, clash_patched)"
  using clash_reaches_4 [of commands_succeed True] clash_run [of commands_succeed]
  by (simp add: clash_patched_def installation_def my_docs_def)

text \<open>
  C8, amended. For every run that has rewritten the manifest and comes to the ignore-file
  step: if the project directory holds no entry \<^verbatim>\<open>gitignore\<close>, the step does nothing and raises
  no error, so the run goes on from the same world; if it holds a file \<^verbatim>\<open>gitignore\<close> and
  no directory stands at \<^verbatim>\<open>.gitignore\<close>, the file is renamed in place: \<^verbatim>\<open>.gitignore\<close> holds
  its text, \<^verbatim>\<open>gitignore\<close> is gone, every other entry of the project directory is as it
  was, and the run goes on.
\<close>

theorem gitignore_is_renamed:
  assumes reach: "reaches 4 e opts w0 = Some w"
  shows "(lookup (files w) (project_root e opts @ [''gitignore'']) = None
            \<longrightarrow> reaches 5 e opts w0 = Some w)
       \<and> (\<forall>c. lookup (files w) (project_root e opts @ [''gitignore'']) = Some (File c)
              \<and> (\<forall>ds. lookup (files w) (project_root e opts @ [''.gitignore'']) \<noteq> Some (Dir ds))
            \<longrightarrow> (\<exists>fs'. reaches 5 e opts w0 =
                         Some (w\<lparr>files := fs',
                                 trace := trace w @ [Rename (project_root e opts @ [''gitignore''])
                                                       (project_root e opts @ [''.gitignore''])]\<rparr>)
                    \<and> lookup fs' (project_root e opts @ [''.gitignore'']) = Some (File c)
                    \<and> lookup fs' (project_root e opts @ [''gitignore'']) = None
                    \<and> (\<forall>name q. name \<noteq> ''gitignore'' \<and> name \<noteq> ''.gitignore''
                          \<longrightarrow> lookup fs' (project_root e opts @ name # q)
                              = lookup (files w) (project_root e opts @ name # q))))"
proof (intro conjI allI impI)
  assume "lookup (files w) (project_root e opts @ [''gitignore'']) = None"
  then show "reaches 5 e opts w0 = Some w"
    by (simp add: reaches_5 [OF reach] renameGitignore_def existsSync_def)
next
  fix c
  let ?root = "project_root e opts"
  assume a: "lookup (files w) (?root @ [''gitignore'']) = Some (File c)
              \<and> (\<forall>ds. lookup (files w) (?root @ [''.gitignore'']) \<noteq> Some (Dir ds))"
  then have src: "lookup (files w) (?root @ [''gitignore'']) = Some (File c)"
    and free: "\<And>ds. lookup (files w) (?root @ [''.gitignore'']) \<noteq> Some (Dir ds)"
    by simp_all
  have ne: "''gitignore'' \<noteq> ''.gitignore''" by simp
  from src free ne obtain fs' where
    rn: "rename_node (?root @ [''gitignore'']) (?root @ [''.gitignore'']) (files w) = Inr fs'"
    and new: "lookup fs' (?root @ [''.gitignore'']) = Some (File c)"
    and old: "lookup fs' (?root @ [''gitignore'']) = None"
    and rest: "\<And>name q. name \<noteq> ''gitignore'' \<Longrightarrow> name \<noteq> ''.gitignore'' \<Longrightarrow>
        lookup fs' (?root @ name # q) = lookup (files w) (?root @ name # q)"
    by (rule rename_file_in_place) blast
  have "reaches 5 e opts w0 =
      Some (w\<lparr>files := fs', trace := trace w @ [Rename (?root @ [''gitignore''])
                                                       (?root @ [''.gitignore''])]\<rparr>)"
    using src rn
    by (simp add: reaches_5 [OF reach] renameGitignore_def existsSync_def renameSync_def)
  then show "\<exists>fs'. reaches 5 e opts w0 =
                         Some (w\<lparr>files := fs',
                                 trace := trace w @ [Rename (project_root e opts @ [''gitignore''])
                                                       (project_root e opts @ [''.gitignore''])]\<rparr>)
                    \<and> lookup fs' (project_root e opts @ [''.gitignore'']) = Some (File c)
                    \<and> lookup fs' (project_root e opts @ [''gitignore'']) = None
                    \<and> (\<forall>name q. name \<noteq> ''gitignore'' \<and> name \<noteq> ''.gitignore''
                          \<longrightarrow> lookup fs' (project_root e opts @ name # q)
                              = lookup (files w) (project_root e opts @ name # q))"
    using new old rest by blast
qed

theorem gitignore_is_renamed_witness:
  "reaches 5 (example_env commands_succeed) (request ''my-docs'' ''minimal'' True) example_world
     = Some scaffolded
   \<and> lookup (files scaffolded) (my_docs @ [''.gitignore'']) = Some (File ''node_modules'')
   \<and> lookup (files scaffolded) (my_docs @ [''gitignore'']) = None
   \<and> reaches 4 (example_env commands_succeed) (request ''my-docs'' ''bare'' True) bare_world
       = Some bare_patched
   \<and> lookup (files bare_patched) (my_docs @ [''gitignore'']) = None
   \<and> reaches 5 (example_env commands_succeed) (request ''my-docs'' ''bare'' True) bare_world
       = Some bare_patched"
proof -
  let ?e = "example_env commands_succeed"
  note with_file = gitignore_is_renamed [OF example_reaches_4 [of commands_succeed True]]
  note without = gitignore_is_renamed [OF bare_reaches_4 [of commands_succeed True]]
  have absent: "lookup (files bare_patched) (project_root ?e (request ''my-docs'' ''bare'' True)
                   @ [''gitignore'']) = None"
    by (simp add: my_docs_root my_docs_def bare_patched_def)
  have "reaches 5 ?e (request ''my-docs'' ''bare'' True) bare_world = Some bare_patched"
    using without absent by blast
  moreover have "lookup (files scaffolded) (my_docs @ [''.gitignore'']) = Some (File ''node_modules'')"
    "lookup (files scaffolded) (my_docs @ [''gitignore'']) = None"
    using with_file by (simp_all add: example_reaches_5 my_docs_root my_docs_def scaffolded_def)
  ultimately show ?thesis
    using absent by (simp add: example_reaches_5 bare_reaches_4 my_docs_root)
qed

end
